theory Spec2Isabelle
  imports Main
begin

section \<open>JavaScript values\<close>

text \<open>
  The server (\<^verbatim>\<open>src/index.js\<close>) handles parsed JSON and the values JavaScript adds to
  it. A value is \<^verbatim>\<open>undefined\<close>, \<^verbatim>\<open>null\<close>, a boolean, a number, a string, an array or
  an object. \<open>JNum n\<close> is a number whose value is the integer \<open>n\<close>; a number with a
  fraction and an infinity are not values of the model, and \<^verbatim>\<open>NaN\<close>, which
  \<^verbatim>\<open>Number(...)\<close> can return, is the \<open>None\<close> of \<open>Number_jv\<close> below. A string is a text
  in ASCII. An object is the list of its own properties in insertion order; a property is
  looked up by its first occurrence.
\<close>

datatype jv =
    JUndefined
  | JNull
  | JBool bool
  | JNum int
  | JStr string
  | JArr "jv list"
  | JObj "(string \<times> jv) list"

text \<open>
  What a JavaScript operation throws, and what a file-system call rejects with.
  \<open>OutsideModel\<close> is no error of the program: it stands where the program computes a value
  that the model does not represent, and nothing is claimed about a run that gives it.
\<close>

datatype js_error = TypeError | RangeError | SyntaxError | ENOENT | EACCES | OutsideModel

text \<open>\<^verbatim>\<open>!v\<close> is \<open>\<not> truthy v\<close>; \<^verbatim>\<open>a || b\<close> is \<open>js_or a b\<close>.\<close>

fun truthy :: "jv \<Rightarrow> bool" where
  "truthy JUndefined = False"
| "truthy JNull = False"
| "truthy (JBool b) = b"
| "truthy (JNum n) = (n \<noteq> 0)"
| "truthy (JStr s) = (s \<noteq> [])"
| "truthy (JArr xs) = True"
| "truthy (JObj fs) = True"

definition js_or :: "jv \<Rightarrow> jv \<Rightarrow> jv" where
  "js_or a b = (if truthy a then a else b)"

text \<open>
  \<^verbatim>\<open>v.k\<close> for the property names the server reads (\<^verbatim>\<open>path\<close>, \<^verbatim>\<open>method\<close>, \<^verbatim>\<open>status\<close>,
  \<^verbatim>\<open>response\<close>, \<^verbatim>\<open>headers\<close>): reading a property of \<^verbatim>\<open>null\<close> or \<^verbatim>\<open>undefined\<close> throws a
  TypeError, an object yields the property or \<^verbatim>\<open>undefined\<close>, and every other value has no
  property of these names.
\<close>

fun get_prop :: "jv \<Rightarrow> string \<Rightarrow> js_error + jv" where
  "get_prop JUndefined k = Inl TypeError"
| "get_prop JNull k = Inl TypeError"
| "get_prop (JObj fs) k = Inr (case map_of fs k of None \<Rightarrow> JUndefined | Some v \<Rightarrow> v)"
| "get_prop v k = Inr JUndefined"

text \<open>
  \<^verbatim>\<open>s.toUpperCase()\<close> of a text in ASCII: the letters \<^verbatim>\<open>a\<close>..\<^verbatim>\<open>z\<close> are mapped and every
  other character is kept. JavaScript also maps the cased letters outside ASCII, which
  this definition keeps; the properties that depend on the result are stated for ASCII
  methods (\<open>ascii\<close> below), as the methods of HTTP are. Called on a value that is not a
  string, the method does not exist and the call throws.
\<close>

definition upper_char :: "char \<Rightarrow> char" where
  "upper_char c =
     (case map_of (zip ''abcdefghijklmnopqrstuvwxyz'' ''ABCDEFGHIJKLMNOPQRSTUVWXYZ'') c of
        None \<Rightarrow> c | Some u \<Rightarrow> u)"

definition toUpperCase :: "string \<Rightarrow> string" where
  "toUpperCase s = map upper_char s"

fun call_toUpperCase :: "jv \<Rightarrow> js_error + string" where
  "call_toUpperCase (JStr s) = Inr (toUpperCase s)"
| "call_toUpperCase v = Inl TypeError"

definition startsWith :: "string \<Rightarrow> string \<Rightarrow> bool" where
  "startsWith s pre = (take (length pre) s = pre)"

section \<open>Path normalisation\<close>

text \<open>
  \<^verbatim>\<open>
  function normalizePath(p) {
    if (!p) return '/';
    if (!p.startsWith('/')) return '/' + p;
    return p;
  }
  \<close>
  The callers pass a string, or whatever a request body or a snapshot record holds under
  \<^verbatim>\<open>path\<close>: a falsy value gives \<^verbatim>\<open>'/'\<close>, and a truthy value that is not a string has no
  \<^verbatim>\<open>startsWith\<close>, so the call throws.
\<close>

fun normalizePath :: "jv \<Rightarrow> js_error + string" where
  "normalizePath (JStr p) =
     (if p = [] then Inr ''/''
      else if \<not> startsWith p ''/'' then Inr (''/'' @ p)
      else Inr p)"
| "normalizePath p = (if \<not> truthy p then Inr ''/'' else Inl TypeError)"


section \<open>Strings and numbers\<close>

text \<open>The decimal digits of an integer, with a minus sign when it is negative.\<close>

definition digit_char :: "nat \<Rightarrow> char" where
  "digit_char d = ''0123456789'' ! d"

fun string_of_nat :: "nat \<Rightarrow> string" where
  "string_of_nat n =
     (if n < 10 then [digit_char n] else string_of_nat (n div 10) @ [digit_char (n mod 10)])"

declare string_of_nat.simps [simp del]

definition String_int :: "int \<Rightarrow> string" where
  "String_int n = (if n < 0 then ''-'' @ string_of_nat (nat (- n)) else string_of_nat (nat n))"

text \<open>\<^verbatim>\<open>xs.join(',')\<close>, which is what an array's \<^verbatim>\<open>toString\<close> does.\<close>

fun join_comma :: "string list \<Rightarrow> string" where
  "join_comma [] = []"
| "join_comma [s] = s"
| "join_comma (s # t # ss) = s @ '','' @ join_comma (t # ss)"

text \<open>
  \<^verbatim>\<open>String(n)\<close> of a number prints all the digits of an integer of magnitude up to
  \<open>2^53\<close>; larger numbers are printed rounded, or with an exponent from \<open>10^21\<close>, which
  the model does not follow.
\<close>

definition safe_int :: "int \<Rightarrow> bool" where
  "safe_int n = (\<bar>n\<bar> \<le> 2 ^ 53)"

definition Number_toString :: "int \<Rightarrow> js_error + string" where
  "Number_toString n = (if safe_int n then Inr (String_int n) else Inl OutsideModel)"

text \<open>
  \<^verbatim>\<open>String(v)\<close>, given how a number is printed. An array joins the strings of its
  elements, where \<^verbatim>\<open>null\<close> and \<^verbatim>\<open>undefined\<close> elements give the empty string. An object
  parsed from JSON has no callable property: with a property \<^verbatim>\<open>toString\<close> of its own the
  conversion finds no method to call and throws a TypeError (the inherited \<^verbatim>\<open>valueOf\<close>
  returns the object itself), and without one the inherited method gives
  \<^verbatim>\<open>[object Object]\<close>.
\<close>

definition own_property :: "(string \<times> jv) list \<Rightarrow> string \<Rightarrow> bool" where
  "own_property fs k = (map_of fs k \<noteq> None)"

fun ToString :: "(int \<Rightarrow> js_error + string) \<Rightarrow> jv \<Rightarrow> js_error + string"
  and ToString_elements :: "(int \<Rightarrow> js_error + string) \<Rightarrow> jv list \<Rightarrow> js_error + string list"
where
  "ToString num JUndefined = Inr ''undefined''"
| "ToString num JNull = Inr ''null''"
| "ToString num (JBool b) = Inr (if b then ''true'' else ''false'')"
| "ToString num (JNum n) = num n"
| "ToString num (JStr s) = Inr s"
| "ToString num (JArr xs) =
     (case ToString_elements num xs of Inl e \<Rightarrow> Inl e | Inr ss \<Rightarrow> Inr (join_comma ss))"
| "ToString num (JObj fs) =
     (if own_property fs ''toString'' then Inl TypeError else Inr ''[object Object]'')"
| "ToString_elements num [] = Inr []"
| "ToString_elements num (x # xs) =
     (case (if x = JNull \<or> x = JUndefined then Inr [] else ToString num x) of
        Inl e \<Rightarrow> Inl e
      | Inr s \<Rightarrow>
          (case ToString_elements num xs of Inl e \<Rightarrow> Inl e | Inr ss \<Rightarrow> Inr (s # ss)))"

text \<open>
  \<^verbatim>\<open>Number(s)\<close> of a string. White space around the text is dropped and the empty text
  is 0. The text is then a literal with a radix prefix (\<^verbatim>\<open>0x\<close>, \<^verbatim>\<open>0o\<close>, \<^verbatim>\<open>0b\<close> and
  digits, no sign), or a decimal literal: an optional sign, then \<^verbatim>\<open>Infinity\<close> or digits
  with an optional fraction and an optional exponent (\<^verbatim>\<open>12\<close>, \<^verbatim>\<open>5.\<close>, \<^verbatim>\<open>.5\<close>,
  \<^verbatim>\<open>1.5e-3\<close>). Any other text is \<^verbatim>\<open>NaN\<close>, which is \<open>Inr None\<close>. A literal whose value
  is an integer of magnitude up to \<open>2^53\<close> is that integer. Every other literal is a
  number the model does not represent, and so is a text with a character outside ASCII,
  which JavaScript may count as white space: the result is \<open>Inl OutsideModel\<close>.
\<close>

definition ascii :: "string \<Rightarrow> bool" where
  "ascii s = list_all (\<lambda>c. \<not> digit7 c) s"

definition digit_of :: "char \<Rightarrow> nat option" where
  "digit_of c = map_of (zip ''0123456789'' [0, 1, 2, 3, 4, 5, 6, 7, 8, 9]) c"

fun parse_digits :: "nat \<Rightarrow> string \<Rightarrow> nat option" where
  "parse_digits acc [] = Some acc"
| "parse_digits acc (c # cs) =
     (case digit_of c of None \<Rightarrow> None | Some d \<Rightarrow> parse_digits (acc * 10 + d) cs)"

definition is_digit :: "char \<Rightarrow> bool" where
  "is_digit c = (digit_of c \<noteq> None)"

definition digits_value :: "string \<Rightarrow> nat" where
  "digits_value ds = (case parse_digits 0 ds of None \<Rightarrow> 0 | Some n \<Rightarrow> n)"

definition hex_of :: "char \<Rightarrow> nat option" where
  "hex_of c =
     map_of (zip ''0123456789abcdefABCDEF''
               [0, 1, 2, 3, 4, 5, 6, 7, 8, 9, 10, 11, 12, 13, 14, 15, 10, 11, 12, 13, 14, 15]) c"

fun parse_radix :: "nat \<Rightarrow> nat \<Rightarrow> string \<Rightarrow> nat option" where
  "parse_radix b acc [] = Some acc"
| "parse_radix b acc (c # cs) =
     (case hex_of c of
        None \<Rightarrow> None
      | Some d \<Rightarrow> if d < b then parse_radix b (acc * b + d) cs else None)"

definition is_space :: "char \<Rightarrow> bool" where
  "is_space c = (c \<in> set [CHR '' '', CHR 0x09, CHR 0x0A, CHR 0x0B, CHR 0x0C, CHR 0x0D])"

definition trim :: "string \<Rightarrow> string" where
  "trim s = rev (dropWhile is_space (rev (dropWhile is_space s)))"

text \<open>The value \<open>m * 10^x\<close> of a decimal literal with digits \<open>m\<close> and exponent \<open>x\<close>.\<close>

definition scaled :: "nat \<Rightarrow> int \<Rightarrow> js_error + int option" where
  "scaled m x =
     (if m = 0 then Inr (Some 0)
      else if 0 \<le> x then
        (if 15 < x \<or> 2 ^ 53 < m * 10 ^ nat x then Inl OutsideModel
         else Inr (Some (int (m * 10 ^ nat x))))
      else
        (if m mod 10 ^ nat (- x) = 0 \<and> m div 10 ^ nat (- x) \<le> 2 ^ 53
         then Inr (Some (int (m div 10 ^ nat (- x))))
         else Inl OutsideModel))"

text \<open>The exponent after the digits: nothing, or \<^verbatim>\<open>e\<close> or \<^verbatim>\<open>E\<close>, an optional sign and digits.\<close>

definition exponent_part :: "string \<Rightarrow> int option" where
  "exponent_part r =
     (case r of
        [] \<Rightarrow> Some 0
      | c # cs \<Rightarrow>
          if c = CHR ''e'' \<or> c = CHR ''E'' then
            (case cs of
               [] \<Rightarrow> None
             | s # ds \<Rightarrow>
                 if s = CHR ''-'' then
                   (if ds = [] then None else map_option (\<lambda>n. - int n) (parse_digits 0 ds))
                 else if s = CHR ''+'' then
                   (if ds = [] then None else map_option int (parse_digits 0 ds))
                 else map_option int (parse_digits 0 (s # ds)))
          else None)"

definition unsigned_decimal :: "string \<Rightarrow> js_error + int option" where
  "unsigned_decimal s =
     (if s = ''Infinity'' then Inl OutsideModel
      else
        (let ip = takeWhile is_digit s;
             r1 = dropWhile is_digit s;
             dot = (r1 \<noteq> [] \<and> hd r1 = CHR ''.'');
             fp = (if dot then takeWhile is_digit (tl r1) else []);
             r2 = (if dot then dropWhile is_digit (tl r1) else r1)
         in if ip = [] \<and> fp = [] then Inr None
            else
              (case exponent_part r2 of
                 None \<Rightarrow> Inr None
               | Some e \<Rightarrow> scaled (digits_value (ip @ fp)) (e - int (length fp)))))"

definition radix_value :: "nat \<Rightarrow> string \<Rightarrow> js_error + int option" where
  "radix_value b ds =
     (if ds = [] then Inr None
      else
        (case parse_radix b 0 ds of
           None \<Rightarrow> Inr None
         | Some v \<Rightarrow> if v \<le> 2 ^ 53 then Inr (Some (int v)) else Inl OutsideModel))"

definition radix_literal :: "string \<Rightarrow> (js_error + int option) option" where
  "radix_literal s =
     (case s of
        z # x # ds \<Rightarrow>
          if z \<noteq> CHR ''0'' then None
          else if x = CHR ''x'' \<or> x = CHR ''X'' then Some (radix_value 16 ds)
          else if x = CHR ''o'' \<or> x = CHR ''O'' then Some (radix_value 8 ds)
          else if x = CHR ''b'' \<or> x = CHR ''B'' then Some (radix_value 2 ds)
          else None
      | _ \<Rightarrow> None)"

definition negated :: "js_error + int option \<Rightarrow> js_error + int option" where
  "negated r = (case r of Inl e \<Rightarrow> Inl e | Inr None \<Rightarrow> Inr None | Inr (Some n) \<Rightarrow> Inr (Some (- n)))"

definition StringToNumber :: "string \<Rightarrow> js_error + int option" where
  "StringToNumber s =
     (if \<not> ascii s then Inl OutsideModel
      else
        (case trim s of
           [] \<Rightarrow> Inr (Some 0)
         | c # cs \<Rightarrow>
             (case radix_literal (c # cs) of
                Some r \<Rightarrow> r
              | None \<Rightarrow>
                  if c = CHR ''-'' then negated (unsigned_decimal cs)
                  else if c = CHR ''+'' then unsigned_decimal cs
                  else unsigned_decimal (c # cs))))"

text \<open>
  \<^verbatim>\<open>Number(v)\<close>: \<^verbatim>\<open>undefined\<close> is \<^verbatim>\<open>NaN\<close>, \<^verbatim>\<open>null\<close> is 0, a boolean is 0 or 1, and a
  string is parsed. An array is converted through its string. An object with a property
  \<^verbatim>\<open>toString\<close> of its own throws as in \<open>ToString\<close>, and any other object is \<^verbatim>\<open>NaN\<close>.
\<close>

fun Number_jv :: "jv \<Rightarrow> js_error + int option" where
  "Number_jv JUndefined = Inr None"
| "Number_jv JNull = Inr (Some 0)"
| "Number_jv (JBool b) = Inr (Some (if b then 1 else 0))"
| "Number_jv (JNum n) = Inr (Some n)"
| "Number_jv (JStr s) = StringToNumber s"
| "Number_jv (JArr xs) =
     (case ToString Number_toString (JArr xs) of Inl e \<Rightarrow> Inl e | Inr s \<Rightarrow> StringToNumber s)"
| "Number_jv (JObj fs) = (if own_property fs ''toString'' then Inl TypeError else Inr None)"


fun isArray :: "jv \<Rightarrow> bool" where
  "isArray (JArr xs) = True"
| "isArray v = False"


section \<open>JSON text\<close>

text \<open>
  \<^verbatim>\<open>JSON.stringify\<close> and \<^verbatim>\<open>JSON.parse\<close> belong to the language. A text is modelled by
  what \<^verbatim>\<open>JSON.parse\<close> makes of it: the value it denotes, or a text that is not JSON, on
  which parsing throws a SyntaxError. \<^verbatim>\<open>JSON.stringify\<close> leaves out the properties whose
  value is \<^verbatim>\<open>undefined\<close> and writes an \<^verbatim>\<open>undefined\<close> array element as \<^verbatim>\<open>null\<close>.
\<close>

datatype file_text = JsonText jv | NotJson string

fun json_clean :: "jv \<Rightarrow> jv" where
  "json_clean (JArr xs) = JArr (map (\<lambda>x. if x = JUndefined then JNull else json_clean x) xs)"
| "json_clean (JObj fs) =
     JObj (map (\<lambda>(k, v). (k, json_clean v)) (filter (\<lambda>(k, v). v \<noteq> JUndefined) fs))"
| "json_clean v = v"

definition JSON_stringify :: "jv \<Rightarrow> file_text" where
  "JSON_stringify v = JsonText (json_clean v)"

fun JSON_parse :: "file_text \<Rightarrow> js_error + jv" where
  "JSON_parse (JsonText v) = Inr v"
| "JSON_parse (NotJson s) = Inl SyntaxError"

section \<open>The file system\<close>

text \<open>
  The files by path, with the paths that cannot be read and the paths that cannot be
  written (permissions, a directory in the way, a missing parent directory).
  \<^verbatim>\<open>fs.rename\<close> needs its source to exist and replaces the target.
\<close>

record world =
  files :: "string \<rightharpoonup> file_text"
  unreadable :: "string set"
  unwritable :: "string set"

definition existsSync :: "world \<Rightarrow> string \<Rightarrow> bool" where
  "existsSync w p = (files w p \<noteq> None)"

definition fs_readFile :: "world \<Rightarrow> string \<Rightarrow> js_error + file_text" where
  "fs_readFile w p =
     (case files w p of
        None \<Rightarrow> Inl ENOENT
      | Some t \<Rightarrow> if p \<in> unreadable w then Inl EACCES else Inr t)"

definition fs_writeFile :: "world \<Rightarrow> string \<Rightarrow> file_text \<Rightarrow> js_error + world" where
  "fs_writeFile w p t =
     (if p \<in> unwritable w then Inl EACCES else Inr (w\<lparr>files := (files w)(p \<mapsto> t)\<rparr>))"

definition fs_rename :: "world \<Rightarrow> string \<Rightarrow> string \<Rightarrow> js_error + world" where
  "fs_rename w a b =
     (case files w a of
        None \<Rightarrow> Inl ENOENT
      | Some t \<Rightarrow>
          if b \<in> unwritable w then Inl EACCES
          else Inr (w\<lparr>files := ((files w)(a := None))(b \<mapsto> t)\<rparr>))"

section \<open>Configuration, routes and responses\<close>

text \<open>
  The constants read from the environment at startup. \<open>RATE_LIMIT_SECONDS\<close> is a whole
  number of seconds, and \<open>RATE_LIMIT_EXEMPT\<close> is the list of exempt paths after
  splitting and trimming.
\<close>

record config =
  DATA_FILE :: string
  RATE_LIMIT_SECONDS :: int
  RATE_LIMIT_EXEMPT :: "string list"

text \<open>
  A stored route, as the object literals of \<^verbatim>\<open>loadRoutes\<close> and of the register handler
  build it (\<open>http_method\<close> is its \<^verbatim>\<open>method\<close>). The method and the path are strings on
  both paths; the other three fields hold whatever value was put there.
\<close>

record route =
  http_method :: string
  path :: string
  status :: jv
  response :: jv
  headers :: jv

text \<open>
  \<^verbatim>\<open>routes\<close> is a \<^verbatim>\<open>Map\<close>: keys in insertion order, and \<^verbatim>\<open>set\<close> on a key that is there
  replaces its value in place.
\<close>

type_synonym routes = "(string \<times> route) list"

primrec Map_set :: "string \<Rightarrow> 'v \<Rightarrow> (string \<times> 'v) list \<Rightarrow> (string \<times> 'v) list" where
  "Map_set k v [] = [(k, v)]"
| "Map_set k v (e # es) = (if fst e = k then (k, v) # es else e # Map_set k v es)"

definition Map_get :: "(string \<times> 'v) list \<Rightarrow> string \<Rightarrow> 'v option" where
  "Map_get m k = map_of m k"

text \<open>The template literal \<^verbatim>\<open>`${method} ${path}`\<close>.\<close>

definition route_key :: "string \<Rightarrow> string \<Rightarrow> string" where
  "route_key m p = m @ '' '' @ p"

text \<open>
  A response: the status given to \<^verbatim>\<open>res.status\<close> (200 when none is given), the calls of
  \<^verbatim>\<open>res.set\<close> in order, and the body, either the value handed to \<^verbatim>\<open>res.json\<close> or the
  text handed to \<^verbatim>\<open>res.send\<close>.
\<close>

datatype body = Json jv | Text string

record res =
  res_status :: jv
  res_headers :: "(string \<times> string) list"
  res_body :: body

definition json_res :: "int \<Rightarrow> jv \<Rightarrow> res" where
  "json_res code v = \<lparr>res_status = JNum code, res_headers = [], res_body = Json v\<rparr>"

text \<open>The fields of a request that the server reads.\<close>

record request =
  req_ip :: "string option"
  req_remoteAddress :: "string option"
  req_method :: string
  req_path :: string
  req_body :: jv

section \<open>Persistence\<close>

text \<open>
  \<^verbatim>\<open>
  async function atomicWriteFile(path, data) {
    const tmp = `${path}.${Date.now()}.tmp`;
    await fs.writeFile(tmp, data, { encoding: 'utf8' });
    await fs.rename(tmp, path);
  }
  \<close>
  \<open>now_ms\<close> is what \<^verbatim>\<open>Date.now()\<close> returns at the call: a whole number of milliseconds
  of at most 8.64e15, which the template literal prints as its decimal digits. The
  function runs in two parts, one up to each \<^verbatim>\<open>await\<close>; other requests can run between
  them. A rejected promise is the \<open>Some\<close> error of the result, next to the file system
  as the call left it.
\<close>

definition tmp_path :: "string \<Rightarrow> int \<Rightarrow> string" where
  "tmp_path p now_ms = p @ ''.'' @ String_int now_ms @ ''.tmp''"

definition atomicWriteFile_write :: "int \<Rightarrow> string \<Rightarrow> file_text \<Rightarrow> world \<Rightarrow> js_error + world" where
  "atomicWriteFile_write now_ms p t w = fs_writeFile w (tmp_path p now_ms) t"

definition atomicWriteFile_rename :: "int \<Rightarrow> string \<Rightarrow> world \<Rightarrow> js_error + world" where
  "atomicWriteFile_rename now_ms p w = fs_rename w (tmp_path p now_ms) p"

definition atomicWriteFile :: "int \<Rightarrow> string \<Rightarrow> file_text \<Rightarrow> world \<Rightarrow> js_error option \<times> world" where
  "atomicWriteFile now_ms p t w =
     (case atomicWriteFile_write now_ms p t w of
        Inl e \<Rightarrow> (Some e, w)
      | Inr w1 \<Rightarrow>
          (case atomicWriteFile_rename now_ms p w1 of
             Inl e \<Rightarrow> (Some e, w1)
           | Inr w2 \<Rightarrow> (None, w2)))"

text \<open>
  \<^verbatim>\<open>
  async function persistRoutes() {
    const arr = [];
    for (const [, v] of routes) {
      arr.push({ path: v.path, method: v.method, status: v.status,
                 response: v.response, headers: v.headers || {} });
    }
    await atomicWriteFile(DATA_FILE, JSON.stringify(arr, null, 2));
  }
  \<close>
\<close>

definition snapshot_record :: "route \<Rightarrow> jv" where
  "snapshot_record v =
     JObj [(''path'', JStr (path v)), (''method'', JStr (http_method v)), (''status'', status v),
           (''response'', response v), (''headers'', js_or (headers v) (JObj []))]"

definition snapshot :: "routes \<Rightarrow> file_text" where
  "snapshot rs = JSON_stringify (JArr (map (\<lambda>(k, v). snapshot_record v) rs))"

definition persistRoutes :: "config \<Rightarrow> int \<Rightarrow> routes \<Rightarrow> world \<Rightarrow> js_error option \<times> world" where
  "persistRoutes cfg now_ms rs w = atomicWriteFile now_ms (DATA_FILE cfg) (snapshot rs) w"

text \<open>
  \<^verbatim>\<open>loadRoutes\<close>. The body of its \<^verbatim>\<open>try\<close> has two passes over a parsed array. The first
  only builds each record's key, from \<^verbatim>\<open>(item.method||'GET').toUpperCase()\<close> and
  \<^verbatim>\<open>normalizePath(item.path)\<close>, and throws where either throws. The second stores
  \<^verbatim>\<open>
  routes.set(key, { method, path, status: item.status || 200,
                    response: item.response, headers: item.headers || {} });
  \<close>
  for each record. An exception leaves the table as the records before it made it, and
  the \<^verbatim>\<open>catch\<close> logs it.
\<close>

definition item_method_path :: "jv \<Rightarrow> js_error + string \<times> string" where
  "item_method_path item =
     (case get_prop item ''method'' of
        Inl e \<Rightarrow> Inl e
      | Inr im \<Rightarrow>
          (case call_toUpperCase (js_or im (JStr ''GET'')) of
             Inl e \<Rightarrow> Inl e
           | Inr m \<Rightarrow>
               (case get_prop item ''path'' of
                  Inl e \<Rightarrow> Inl e
                | Inr ip \<Rightarrow>
                    (case normalizePath ip of
                       Inl e \<Rightarrow> Inl e
                     | Inr p \<Rightarrow> Inr (m, p)))))"

fun check_items :: "jv list \<Rightarrow> js_error option" where
  "check_items [] = None"
| "check_items (item # items) =
     (case item_method_path item of
        Inl e \<Rightarrow> Some e
      | Inr mp \<Rightarrow> check_items items)"

definition item_field :: "jv \<Rightarrow> string \<Rightarrow> jv" where
  "item_field item k = (case get_prop item k of Inl e \<Rightarrow> JUndefined | Inr v \<Rightarrow> v)"

definition load_item :: "routes \<Rightarrow> jv \<Rightarrow> js_error + routes" where
  "load_item rs item =
     (case item_method_path item of
        Inl e \<Rightarrow> Inl e
      | Inr (m, p) \<Rightarrow>
          Inr (Map_set (route_key m p)
                 \<lparr>http_method = m, path = p,
                  status = js_or (item_field item ''status'') (JNum 200),
                  response = item_field item ''response'',
                  headers = js_or (item_field item ''headers'') (JObj [])\<rparr> rs))"

fun load_items :: "routes \<Rightarrow> jv list \<Rightarrow> js_error option \<times> routes" where
  "load_items rs [] = (None, rs)"
| "load_items rs (item # items) =
     (case load_item rs item of
        Inl e \<Rightarrow> (Some e, rs)
      | Inr rs' \<Rightarrow> load_items rs' items)"

definition loadRoutes_try :: "config \<Rightarrow> world \<Rightarrow> routes \<Rightarrow> js_error option \<times> routes" where
  "loadRoutes_try cfg w rs =
     (if \<not> existsSync w (DATA_FILE cfg) then (None, rs)
      else
        (case fs_readFile w (DATA_FILE cfg) of
           Inl e \<Rightarrow> (Some e, rs)
         | Inr raw \<Rightarrow>
             (case JSON_parse raw of
                Inl e \<Rightarrow> (Some e, rs)
              | Inr parsed \<Rightarrow>
                  (case parsed of
                     JArr items \<Rightarrow>
                       (case check_items items of
                          Some e \<Rightarrow> (Some e, rs)
                        | None \<Rightarrow> load_items rs items)
                   | _ \<Rightarrow> (None, rs)))))"

text \<open>
  The whole function: what it throws to its caller, if anything, the table afterwards,
  and the errors written with \<^verbatim>\<open>console.error\<close>.
\<close>

record load_result =
  thrown :: "js_error option"
  table :: routes
  logged :: "js_error list"

definition loadRoutes :: "config \<Rightarrow> world \<Rightarrow> routes \<Rightarrow> load_result" where
  "loadRoutes cfg w rs =
     (case loadRoutes_try cfg w rs of
        (None, rs') \<Rightarrow> \<lparr>thrown = None, table = rs', logged = []\<rparr>
      | (Some err, rs') \<Rightarrow> \<lparr>thrown = None, table = rs', logged = [err]\<rparr>)"

section \<open>The rate limiter\<close>

text \<open>
  \<^verbatim>\<open>
  const ip = req.ip || req.connection.remoteAddress || 'unknown';
  if (RATE_LIMIT_EXEMPT.includes(req.path)) return next();
  const now = Math.floor(Date.now() / 1000);
  const last = lastRequest.get(ip) || 0;
  if (now - last < RATE_LIMIT_SECONDS) {
    const retryAfter = RATE_LIMIT_SECONDS - (now - last);
    res.set('Retry-After', String(retryAfter));
    return res.status(429).json({ error: 'Too many requests', retry_after_seconds: retryAfter });
  }
  lastRequest.set(ip, now);
  next();
  \<close>
  The middleware either answers the request itself or passes it on with \<^verbatim>\<open>next()\<close>.
  \<^verbatim>\<open>lastRequest\<close> is a \<^verbatim>\<open>Map\<close> read and written by key only. Nothing in the \<^verbatim>\<open>try\<close>
  throws on a request that has a connection, so its \<^verbatim>\<open>catch\<close> has no branch here.
  The clock and the window are whole numbers of seconds; \<^verbatim>\<open>String(retryAfter)\<close> is the
  decimal digits of the number as long as it stays in the range where numbers are exact,
  which the properties of the limiter assume of the window and the clock.
\<close>

datatype verdict = Next | Sent res

definition string_or :: "string option \<Rightarrow> string option \<Rightarrow> string option" where
  "string_or a b = (case a of None \<Rightarrow> b | Some s \<Rightarrow> if s = [] then b else Some s)"

definition client_ip :: "request \<Rightarrow> string" where
  "client_ip req =
     (case string_or (string_or (req_ip req) (req_remoteAddress req)) (Some ''unknown'') of
        None \<Rightarrow> [] | Some s \<Rightarrow> s)"

definition last_or_0 :: "(string \<rightharpoonup> int) \<Rightarrow> string \<Rightarrow> int" where
  "last_or_0 lastRequest ip = (case lastRequest ip of None \<Rightarrow> 0 | Some t \<Rightarrow> if t \<noteq> 0 then t else 0)"

definition too_many :: "int \<Rightarrow> res" where
  "too_many retryAfter =
     \<lparr>res_status = JNum 429,
      res_headers = [(''Retry-After'', String_int retryAfter)],
      res_body = Json (JObj [(''error'', JStr ''Too many requests''),
                             (''retry_after_seconds'', JNum retryAfter)])\<rparr>"

definition rate_limiter ::
  "config \<Rightarrow> int \<Rightarrow> request \<Rightarrow> (string \<rightharpoonup> int) \<Rightarrow> verdict \<times> (string \<rightharpoonup> int)" where
  "rate_limiter cfg now_ms req lastRequest =
     (let ip = client_ip req in
      if req_path req \<in> set (RATE_LIMIT_EXEMPT cfg) then (Next, lastRequest)
      else
        (let now = now_ms div 1000;
             last = last_or_0 lastRequest ip
         in if now - last < RATE_LIMIT_SECONDS cfg then
              (Sent (too_many (RATE_LIMIT_SECONDS cfg - (now - last))), lastRequest)
            else (Next, lastRequest(ip \<mapsto> now))))"

section \<open>The handlers\<close>

text \<open>
  \<^verbatim>\<open>
  app.post('/register', async (req, res) => {
    const { path, method = 'GET', response, status = 200, headers = {} } = req.body;
    if (!path || typeof response === 'undefined') {
      return res.status(400).json({ error: 'path and response required' });
    }
    const p = normalizePath(path);
    const m = method.toUpperCase();
    const key = `${m} ${p}`;
    routes.set(key, { method: m, path: p, status: Number(status) || 200, response, headers });
    try { await persistRoutes(); }
    catch (err) { ...; return res.status(500).json({ error: 'Failed to persist route' }); }
    res.json({ message: 'Registered', method: m, path: p });
  });
  \<close>
  A default in the destructuring applies to \<^verbatim>\<open>undefined\<close> only. The object stored is
  built, and \<^verbatim>\<open>Number(status)\<close> with it, before \<^verbatim>\<open>routes.set\<close> is called. The handler
  ends with a response or with an exception, and leaves a table and a file system.
\<close>

definition js_default :: "jv \<Rightarrow> jv \<Rightarrow> jv" where
  "js_default v d = (if v = JUndefined then d else v)"

text \<open>\<^verbatim>\<open>Number(status) || 200\<close>: 200 for 0 and for \<^verbatim>\<open>NaN\<close>.\<close>

definition Number_or_200 :: "jv \<Rightarrow> js_error + jv" where
  "Number_or_200 s =
     (case Number_jv s of
        Inl e \<Rightarrow> Inl e
      | Inr None \<Rightarrow> Inr (JNum 200)
      | Inr (Some n) \<Rightarrow> Inr (if n = 0 then JNum 200 else JNum n))"

definition registered_route :: "string \<Rightarrow> string \<Rightarrow> jv \<Rightarrow> jv \<Rightarrow> route" where
  "registered_route m p st b =
     \<lparr>http_method = m, path = p, status = st,
      response = item_field b ''response'',
      headers = js_default (item_field b ''headers'') (JObj [])\<rparr>"

record handled =
  outcome :: "js_error + res"
  routes_after :: routes
  world_after :: world

definition register :: "config \<Rightarrow> int \<Rightarrow> request \<Rightarrow> routes \<Rightarrow> world \<Rightarrow> handled" where
  "register cfg now_ms req rs w =
     (case get_prop (req_body req) ''path'' of
        Inl e \<Rightarrow> \<lparr>outcome = Inl e, routes_after = rs, world_after = w\<rparr>
      | Inr bpath \<Rightarrow>
          (let bmethod = js_default (item_field (req_body req) ''method'') (JStr ''GET'');
               bresponse = item_field (req_body req) ''response''
           in if \<not> truthy bpath \<or> bresponse = JUndefined then
                \<lparr>outcome = Inr (json_res 400 (JObj [(''error'', JStr ''path and response required'')])),
                 routes_after = rs, world_after = w\<rparr>
              else
                (case normalizePath bpath of
                   Inl e \<Rightarrow> \<lparr>outcome = Inl e, routes_after = rs, world_after = w\<rparr>
                 | Inr p \<Rightarrow>
                     (case call_toUpperCase bmethod of
                        Inl e \<Rightarrow> \<lparr>outcome = Inl e, routes_after = rs, world_after = w\<rparr>
                      | Inr m \<Rightarrow>
                          (case Number_or_200
                                  (js_default (item_field (req_body req) ''status'') (JNum 200)) of
                             Inl e \<Rightarrow> \<lparr>outcome = Inl e, routes_after = rs, world_after = w\<rparr>
                           | Inr st \<Rightarrow>
                               (let rs' = Map_set (route_key m p)
                                            (registered_route m p st (req_body req)) rs
                                in case persistRoutes cfg now_ms rs' w of
                                     (Some err, w') \<Rightarrow>
                                       \<lparr>outcome = Inr (json_res 500
                                            (JObj [(''error'', JStr ''Failed to persist route'')])),
                                        routes_after = rs', world_after = w'\<rparr>
                                   | (None, w') \<Rightarrow>
                                       \<lparr>outcome = Inr (json_res 200
                                            (JObj [(''message'', JStr ''Registered''),
                                                   (''method'', JStr m), (''path'', JStr p)])),
                                        routes_after = rs', world_after = w'\<rparr>))))))"

text \<open>
  \<^verbatim>\<open>
  app.get('/__routes', (req, res) => {
    const out = [];
    for (const [, v] of routes) out.push({ path: v.path, method: v.method, status: v.status });
    res.json(out);
  });
  \<close>
\<close>

definition list_entry :: "route \<Rightarrow> jv" where
  "list_entry v = JObj [(''path'', JStr (path v)), (''method'', JStr (http_method v)), (''status'', status v)]"

definition list_routes :: "routes \<Rightarrow> jv list" where
  "list_routes rs = map (\<lambda>(k, v). list_entry v) rs"

definition get_routes :: "routes \<Rightarrow> res" where
  "get_routes rs = json_res 200 (JArr (list_routes rs))"





section \<open>Vocabulary of the properties\<close>

text \<open>
  A registration body as the interface describes it: \<^verbatim>\<open>path\<close> a non-empty string and
  \<^verbatim>\<open>method\<close> a string, or absent and then \<^verbatim>\<open>GET\<close>.
\<close>

definition body_path :: "jv \<Rightarrow> string option" where
  "body_path b =
     (case item_field b ''path'' of JStr p \<Rightarrow> if p = [] then None else Some p | _ \<Rightarrow> None)"

definition body_method :: "jv \<Rightarrow> string option" where
  "body_method b =
     (case item_field b ''method'' of
        JUndefined \<Rightarrow> Some ''GET'' | JStr m \<Rightarrow> Some m | _ \<Rightarrow> None)"

definition slash_path :: "string \<Rightarrow> string" where
  "slash_path p = (if startsWith p ''/'' then p else ''/'' @ p)"

text \<open>
  The invariant of the route table: no key twice, and every definition stored under the
  key of its own method and path.
\<close>

definition table_inv :: "routes \<Rightarrow> bool" where
  "table_inv rs =
     (distinct (map fst rs) \<and> list_all (\<lambda>(k, v). k = route_key (http_method v) (path v)) rs)"

text \<open>
  The tables the server can hold: empty at startup, then changed by \<^verbatim>\<open>loadRoutes\<close> and by
  the register handler only.
\<close>

inductive reachable :: "routes \<Rightarrow> bool" where
  start: "reachable []"
| loaded: "reachable rs \<Longrightarrow> reachable (table (loadRoutes cfg w rs))"
| registered: "reachable rs \<Longrightarrow> reachable (routes_after (register cfg now_ms req rs w))"

definition entries_for :: "string \<Rightarrow> string \<Rightarrow> routes \<Rightarrow> route list" where
  "entries_for m p rs = filter (\<lambda>v. http_method v = m \<and> path v = p) (map snd rs)"

definition listed_for :: "string \<Rightarrow> string \<Rightarrow> jv list \<Rightarrow> jv list" where
  "listed_for m p out =
     filter (\<lambda>j. item_field j ''method'' = JStr m \<and> item_field j ''path'' = JStr p) out"

text \<open>
  A route that a snapshot gives back unchanged: a non-empty uppercase method, a path that
  starts with \<^verbatim>\<open>/\<close>, a truthy status and truthy headers, and only values that
  \<^verbatim>\<open>JSON.stringify\<close> writes as they are.
\<close>

definition stable_route :: "route \<Rightarrow> bool" where
  "stable_route v =
     (http_method v \<noteq> [] \<and> toUpperCase (http_method v) = http_method v
      \<and> startsWith (path v) ''/''
      \<and> truthy (status v) \<and> json_clean (status v) = status v
      \<and> json_clean (response v) = response v
      \<and> truthy (headers v) \<and> json_clean (headers v) = headers v)"


text \<open>The directory part of a path: everything up to and including the last \<^verbatim>\<open>/\<close>.\<close>

definition dirname :: "string \<Rightarrow> string" where
  "dirname p = rev (dropWhile (\<lambda>c. c \<noteq> CHR ''/'') (rev p))"

section \<open>Properties of path normalisation\<close>

lemma startsWith_slash: "startsWith p ''/'' \<longleftrightarrow> (\<exists>r. p = CHR ''/'' # r)"
  by (cases p) (auto simp: startsWith_def)

lemma normalizePath_str_total: "\<exists>q. normalizePath (JStr p) = Inr q \<and> startsWith q ''/''"
  by (cases p) (auto simp: startsWith_def)

text \<open>
  C9. \<open>normalizePath\<close> is a function of its argument alone. On a missing argument and on
  the empty string it returns \<^verbatim>\<open>/\<close>; a non-empty string that does not start with \<^verbatim>\<open>/\<close>
  gets \<^verbatim>\<open>/\<close> in front; a string that starts with \<^verbatim>\<open>/\<close> is returned as it is; and
  normalising the result again gives the same result.
\<close>

theorem normalizePath_spec:
  "normalizePath JUndefined = Inr ''/''
   \<and> normalizePath (JStr '''') = Inr ''/''
   \<and> (\<not> startsWith p ''/'' \<longrightarrow> normalizePath (JStr p) = Inr (''/'' @ p))
   \<and> (startsWith p ''/'' \<longrightarrow> normalizePath (JStr p) = Inr p)
   \<and> (\<forall>q. normalizePath (JStr p) = Inr q \<longrightarrow> normalizePath (JStr q) = Inr q)
   \<and> (\<exists>q. normalizePath (JStr p) = Inr q)"
  by (cases p) (auto simp: startsWith_def)

theorem normalizePath_spec_witness:
  "normalizePath (JStr ''foo'') = Inr ''/foo''
   \<and> normalizePath (JStr ''/foo'') = Inr ''/foo''
   \<and> normalizePath (JStr '''') = Inr ''/''"
  using normalizePath_spec [of "''foo''"] normalizePath_spec [of "''/foo''"]
  by (simp add: startsWith_def)

section \<open>Properties of the rate limiter\<close>

text \<open>
  C1. A request of a client for which no timestamp is recorded is to be admitted, and
  the specification's own scenario has a first request at second 0 admitted with a window
  of 10 seconds. The middleware reads a missing timestamp as second 0, which lets a
  first request through only when the clock is at least a window past 0. Here are first
  requests that it answers 429, with the seconds to wait in the body and in the
  \<^verbatim>\<open>Retry-After\<close> header, and without recording a timestamp: at second 0 and at second 5
  with a window of 10 seconds, and at second 1700000000 with a window of 2000000000
  seconds.
\<close>

theorem rate_limiter_first_request_rejected:
  "(Map.empty :: string \<rightharpoonup> int) ''10.0.0.1'' = None
   \<and> rate_limiter \<lparr>DATA_FILE = ''./data.json'', RATE_LIMIT_SECONDS = 10, RATE_LIMIT_EXEMPT = []\<rparr>
        0
        \<lparr>req_ip = Some ''10.0.0.1'', req_remoteAddress = None, req_method = ''GET'',
         req_path = ''/x'', req_body = JObj []\<rparr>
        Map.empty
      = (Sent \<lparr>res_status = JNum 429, res_headers = [(''Retry-After'', ''10'')],
               res_body = Json (JObj [(''error'', JStr ''Too many requests''),
                                      (''retry_after_seconds'', JNum 10)])\<rparr>,
         Map.empty)
   \<and> rate_limiter \<lparr>DATA_FILE = ''./data.json'', RATE_LIMIT_SECONDS = 10, RATE_LIMIT_EXEMPT = []\<rparr>
        5000
        \<lparr>req_ip = Some ''10.0.0.1'', req_remoteAddress = None, req_method = ''GET'',
         req_path = ''/x'', req_body = JObj []\<rparr>
        Map.empty
      = (Sent \<lparr>res_status = JNum 429, res_headers = [(''Retry-After'', ''5'')],
               res_body = Json (JObj [(''error'', JStr ''Too many requests''),
                                      (''retry_after_seconds'', JNum 5)])\<rparr>,
         Map.empty)
   \<and> rate_limiter
        \<lparr>DATA_FILE = ''./data.json'', RATE_LIMIT_SECONDS = 2000000000, RATE_LIMIT_EXEMPT = []\<rparr>
        1700000000000
        \<lparr>req_ip = Some ''10.0.0.1'', req_remoteAddress = None, req_method = ''GET'',
         req_path = ''/x'', req_body = JObj []\<rparr>
        Map.empty
      = (Sent \<lparr>res_status = JNum 429, res_headers = [(''Retry-After'', ''300000000'')],
               res_body = Json (JObj [(''error'', JStr ''Too many requests''),
                                      (''retry_after_seconds'', JNum 300000000)])\<rparr>,
         Map.empty)"
  by (simp add: rate_limiter_def client_ip_def string_or_def last_or_0_def too_many_def
        String_int_def string_of_nat.simps digit_char_def)

text \<open>
  What the middleware computes for a request whose path is not exempt, at second \<open>now\<close>,
  where \<open>last\<close> is the timestamp recorded for the client, or 0 when none is recorded: if
  \<open>now - last \<ge> window\<close> the request is passed on and \<open>now\<close> is recorded for the client;
  otherwise it is answered 429 with \<open>retry_after_seconds = window - (now - last)\<close> in the
  body and the digits of the same integer in the \<^verbatim>\<open>Retry-After\<close> header, and the
  recorded timestamps stay as they were.
\<close>

lemma rate_limiter_window:
  assumes "req_path req \<notin> set (RATE_LIMIT_EXEMPT cfg)"
    and "safe_int (RATE_LIMIT_SECONDS cfg)" and "safe_int (now_ms div 1000)"
  shows "let ip = client_ip req;
             now = now_ms div 1000;
             last = (case lastRequest ip of None \<Rightarrow> 0 | Some t \<Rightarrow> t);
             window = RATE_LIMIT_SECONDS cfg
         in (window \<le> now - last \<longrightarrow>
               rate_limiter cfg now_ms req lastRequest = (Next, lastRequest(ip \<mapsto> now)))
          \<and> (now - last < window \<longrightarrow>
               rate_limiter cfg now_ms req lastRequest =
                 (Sent \<lparr>res_status = JNum 429,
                        res_headers = [(''Retry-After'', String_int (window - (now - last)))],
                        res_body = Json (JObj [(''error'', JStr ''Too many requests''),
                                               (''retry_after_seconds'', JNum (window - (now - last)))])\<rparr>,
                  lastRequest))"
  using assms(1)
  by (auto simp: rate_limiter_def Let_def last_or_0_def too_many_def split: option.splits)

lemma rate_limiter_window_example:
  "rate_limiter \<lparr>DATA_FILE = ''./data.json'', RATE_LIMIT_SECONDS = 10, RATE_LIMIT_EXEMPT = [''/health'']\<rparr>
        1700000010000
        \<lparr>req_ip = Some ''10.0.0.1'', req_remoteAddress = None, req_method = ''GET'',
         req_path = ''/x'', req_body = JObj []\<rparr>
        (Map.empty(''10.0.0.1'' \<mapsto> 1700000000))
      = (Next, (Map.empty(''10.0.0.1'' \<mapsto> 1700000000))(''10.0.0.1'' \<mapsto> 1700000010))
   \<and> rate_limiter \<lparr>DATA_FILE = ''./data.json'', RATE_LIMIT_SECONDS = 10, RATE_LIMIT_EXEMPT = [''/health'']\<rparr>
        1700000005999
        \<lparr>req_ip = Some ''10.0.0.1'', req_remoteAddress = None, req_method = ''GET'',
         req_path = ''/x'', req_body = JObj []\<rparr>
        (Map.empty(''10.0.0.1'' \<mapsto> 1700000000))
      = (Sent \<lparr>res_status = JNum 429, res_headers = [(''Retry-After'', ''5'')],
               res_body = Json (JObj [(''error'', JStr ''Too many requests''),
                                      (''retry_after_seconds'', JNum 5)])\<rparr>,
         Map.empty(''10.0.0.1'' \<mapsto> 1700000000))"
  using rate_limiter_window
          [of "\<lparr>req_ip = Some ''10.0.0.1'', req_remoteAddress = None, req_method = ''GET'',
                req_path = ''/x'', req_body = JObj []\<rparr>"
              "\<lparr>DATA_FILE = ''./data.json'', RATE_LIMIT_SECONDS = 10, RATE_LIMIT_EXEMPT = [''/health'']\<rparr>"
              1700000010000 "Map.empty(''10.0.0.1'' \<mapsto> 1700000000)"]
        rate_limiter_window
          [of "\<lparr>req_ip = Some ''10.0.0.1'', req_remoteAddress = None, req_method = ''GET'',
                req_path = ''/x'', req_body = JObj []\<rparr>"
              "\<lparr>DATA_FILE = ''./data.json'', RATE_LIMIT_SECONDS = 10, RATE_LIMIT_EXEMPT = [''/health'']\<rparr>"
              1700000005999 "Map.empty(''10.0.0.1'' \<mapsto> 1700000000)"]
  by (simp add: Let_def client_ip_def string_or_def String_int_def string_of_nat.simps digit_char_def
      safe_int_def)

text \<open>
  C7. A request whose path is in the exemption list is passed on and the recorded
  timestamps are left as they were, so the limiter decides any later request exactly as
  it would have without the exempt one.
\<close>

theorem rate_limiter_exempt:
  assumes "req_path req \<in> set (RATE_LIMIT_EXEMPT cfg)"
  shows "rate_limiter cfg now_ms req lastRequest = (Next, lastRequest)
         \<and> rate_limiter cfg now_ms' req' (snd (rate_limiter cfg now_ms req lastRequest))
             = rate_limiter cfg now_ms' req' lastRequest"
  using assms by (simp add: rate_limiter_def)

theorem rate_limiter_exempt_witness:
  "rate_limiter \<lparr>DATA_FILE = ''./data.json'', RATE_LIMIT_SECONDS = 10, RATE_LIMIT_EXEMPT = [''/health'']\<rparr>
        1700000005000
        \<lparr>req_ip = Some ''10.0.0.1'', req_remoteAddress = None, req_method = ''GET'',
         req_path = ''/health'', req_body = JObj []\<rparr>
        (Map.empty(''10.0.0.1'' \<mapsto> 1700000000))
      = (Next, Map.empty(''10.0.0.1'' \<mapsto> 1700000000))"
  using rate_limiter_exempt
          [of "\<lparr>req_ip = Some ''10.0.0.1'', req_remoteAddress = None, req_method = ''GET'',
                req_path = ''/health'', req_body = JObj []\<rparr>"
              "\<lparr>DATA_FILE = ''./data.json'', RATE_LIMIT_SECONDS = 10, RATE_LIMIT_EXEMPT = [''/health'']\<rparr>"
              1700000005000 "Map.empty(''10.0.0.1'' \<mapsto> 1700000000)"]
  by simp

section \<open>Properties of registration\<close>

lemma Map_get_Map_set_same: "Map_get (Map_set k v rs) k = Some v"
  by (induction rs) (auto simp: Map_get_def)

lemma Map_get_Map_set_other: "k' \<noteq> k \<Longrightarrow> Map_get (Map_set k v rs) k' = Map_get rs k'"
  by (induction rs) (auto simp: Map_get_def)

lemma normalizePath_nonempty: "p \<noteq> [] \<Longrightarrow> normalizePath (JStr p) = Inr (slash_path p)"
  by (simp add: slash_path_def)

lemma register_invalid:
  assumes "get_prop (req_body req) ''path'' = Inr bp"
    and "\<not> truthy bp \<or> item_field (req_body req) ''response'' = JUndefined"
  shows "register cfg now_ms req rs w =
           \<lparr>outcome = Inr (json_res 400 (JObj [(''error'', JStr ''path and response required'')])),
            routes_after = rs, world_after = w\<rparr>"
  using assms by (auto simp: register_def Let_def)

lemma register_valid:
  assumes "body_path (req_body req) = Some bp"
    and "body_method (req_body req) = Some bm"
    and "item_field (req_body req) ''response'' \<noteq> JUndefined"
  shows "register cfg now_ms req rs w =
           (case Number_or_200 (js_default (item_field (req_body req) ''status'') (JNum 200)) of
              Inl e \<Rightarrow> \<lparr>outcome = Inl e, routes_after = rs, world_after = w\<rparr>
            | Inr st \<Rightarrow>
                (let m = toUpperCase bm; p = slash_path bp;
                     rs' = Map_set (route_key m p) (registered_route m p st (req_body req)) rs
                 in case persistRoutes cfg now_ms rs' w of
                      (Some err, w') \<Rightarrow>
                        \<lparr>outcome = Inr (json_res 500
                                          (JObj [(''error'', JStr ''Failed to persist route'')])),
                         routes_after = rs', world_after = w'\<rparr>
                    | (None, w') \<Rightarrow>
                        \<lparr>outcome = Inr (json_res 200 (JObj [(''message'', JStr ''Registered''),
                                                            (''method'', JStr m), (''path'', JStr p)])),
                         routes_after = rs', world_after = w'\<rparr>))"
proof -
  from assms(1) obtain "item_field (req_body req) ''path'' = JStr bp" and ne: "bp \<noteq> []"
    by (auto simp: body_path_def split: jv.splits if_splits)
  then have gp: "get_prop (req_body req) ''path'' = Inr (JStr bp)"
    by (auto simp: item_field_def split: sum.splits)
  from assms(2) have um: "call_toUpperCase (js_default (item_field (req_body req) ''method'') (JStr ''GET''))
                      = Inr (toUpperCase bm)"
    by (auto simp: body_method_def js_default_def split: jv.splits)
  show ?thesis
    using gp ne um assms(3)
    by (cases "Number_or_200 (js_default (item_field (req_body req) ''status'') (JNum 200))")
       (simp_all add: register_def Let_def normalizePath_nonempty del: normalizePath.simps)
qed

lemma atomicWriteFile_ok:
  "atomicWriteFile now_ms p t w = (None, w') \<Longrightarrow> files w' p = Some t"
  by (auto simp: atomicWriteFile_def atomicWriteFile_write_def atomicWriteFile_rename_def
        fs_writeFile_def fs_rename_def split: sum.splits if_splits option.splits)

text \<open>
  What the handler does answer. The body parser leaves a parsed JSON value in
  \<^verbatim>\<open>req.body\<close>, never \<^verbatim>\<open>undefined\<close> or \<^verbatim>\<open>null\<close>. If \<^verbatim>\<open>path\<close> is missing (or otherwise
  falsy) or \<^verbatim>\<open>response\<close> is absent, the handler answers 400 and leaves the route table
  and the file system as they were. For a body with a non-empty string \<^verbatim>\<open>path\<close>, a
  \<^verbatim>\<open>response\<close>, a \<^verbatim>\<open>method\<close> that is absent or an ASCII string and a status that
  converts to \<open>st\<close>, the table holds the new definition afterwards, and the answer is 500 when
  persisting the updated table fails and 200 with the uppercased method and the
  normalised path when it succeeds.
\<close>

lemma register_rejects:
  assumes "req_body req \<noteq> JUndefined" and "req_body req \<noteq> JNull"
    and "\<not> truthy (item_field (req_body req) ''path'')
           \<or> item_field (req_body req) ''response'' = JUndefined"
  shows "register cfg now_ms req rs w =
           \<lparr>outcome = Inr (json_res 400 (JObj [(''error'', JStr ''path and response required'')])),
            routes_after = rs, world_after = w\<rparr>"
proof -
  from assms(1,2) obtain v where gp: "get_prop (req_body req) ''path'' = Inr v"
    by (cases "req_body req") auto
  then have "item_field (req_body req) ''path'' = v"
    by (simp add: item_field_def)
  with assms(3) gp show ?thesis
    by (intro register_invalid) auto
qed

lemma register_accepts:
  assumes "body_path (req_body req) = Some bp" and "body_method (req_body req) = Some bm"
    and "item_field (req_body req) ''response'' \<noteq> JUndefined"
    and "Number_or_200 (js_default (item_field (req_body req) ''status'') (JNum 200)) = Inr st"
    and "ascii bm"
  shows "let m = toUpperCase bm; p = slash_path bp;
             new = \<lparr>http_method = m, path = p, status = st,
                    response = item_field (req_body req) ''response'',
                    headers = (if item_field (req_body req) ''headers'' = JUndefined then JObj []
                               else item_field (req_body req) ''headers'')\<rparr>;
             h = register cfg now_ms req rs w
         in routes_after h = Map_set (route_key m p) new rs
          \<and> Map_get (routes_after h) (route_key m p) = Some new
          \<and> (fst (persistRoutes cfg now_ms (Map_set (route_key m p) new rs) w) \<noteq> None \<longrightarrow>
                outcome h = Inr (json_res 500 (JObj [(''error'', JStr ''Failed to persist route'')])))
          \<and> (fst (persistRoutes cfg now_ms (Map_set (route_key m p) new rs) w) = None \<longrightarrow>
                outcome h = Inr (json_res 200 (JObj [(''message'', JStr ''Registered''),
                                                     (''method'', JStr m), (''path'', JStr p)]))
                \<and> files (world_after h) (DATA_FILE cfg) = Some (snapshot (routes_after h)))"
proof -
  define m p where "m = toUpperCase bm" and "p = slash_path bp"
  define new where "new = \<lparr>http_method = m, path = p, status = st,
                    response = item_field (req_body req) ''response'',
                    headers = (if item_field (req_body req) ''headers'' = JUndefined then JObj []
                               else item_field (req_body req) ''headers'')\<rparr>"
  have new: "registered_route m p st (req_body req) = new"
    by (simp add: registered_route_def js_default_def new_def)
  obtain e w' where pr: "persistRoutes cfg now_ms (Map_set (route_key m p) new rs) w = (e, w')"
    by (cases "persistRoutes cfg now_ms (Map_set (route_key m p) new rs) w")
  have reg: "register cfg now_ms req rs w =
               (case e of
                  Some err \<Rightarrow>
                    \<lparr>outcome = Inr (json_res 500 (JObj [(''error'', JStr ''Failed to persist route'')])),
                     routes_after = Map_set (route_key m p) new rs, world_after = w'\<rparr>
                | None \<Rightarrow>
                    \<lparr>outcome = Inr (json_res 200 (JObj [(''message'', JStr ''Registered''),
                                                        (''method'', JStr m), (''path'', JStr p)])),
                     routes_after = Map_set (route_key m p) new rs, world_after = w'\<rparr>)"
  proof -
    have "register cfg now_ms req rs w =
            (case persistRoutes cfg now_ms
                    (Map_set (route_key (toUpperCase bm) (slash_path bp))
                       (registered_route (toUpperCase bm) (slash_path bp) st (req_body req)) rs) w of
               (Some err, w') \<Rightarrow>
                 \<lparr>outcome = Inr (json_res 500 (JObj [(''error'', JStr ''Failed to persist route'')])),
                  routes_after = Map_set (route_key (toUpperCase bm) (slash_path bp))
                       (registered_route (toUpperCase bm) (slash_path bp) st (req_body req)) rs,
                  world_after = w'\<rparr>
             | (None, w') \<Rightarrow>
                 \<lparr>outcome = Inr (json_res 200 (JObj [(''message'', JStr ''Registered''),
                                                     (''method'', JStr (toUpperCase bm)),
                                                     (''path'', JStr (slash_path bp))])),
                  routes_after = Map_set (route_key (toUpperCase bm) (slash_path bp))
                       (registered_route (toUpperCase bm) (slash_path bp) st (req_body req)) rs,
                  world_after = w'\<rparr>)"
      by (simp add: register_valid [OF assms(1-3)] assms(4) Let_def)
    then have "register cfg now_ms req rs w =
            (case persistRoutes cfg now_ms (Map_set (route_key m p) new rs) w of
               (Some err, w') \<Rightarrow>
                 \<lparr>outcome = Inr (json_res 500 (JObj [(''error'', JStr ''Failed to persist route'')])),
                  routes_after = Map_set (route_key m p) new rs, world_after = w'\<rparr>
             | (None, w') \<Rightarrow>
                 \<lparr>outcome = Inr (json_res 200 (JObj [(''message'', JStr ''Registered''),
                                                     (''method'', JStr m), (''path'', JStr p)])),
                  routes_after = Map_set (route_key m p) new rs, world_after = w'\<rparr>)"
      unfolding m_def [symmetric] p_def [symmetric] new .
    then show ?thesis
      unfolding pr by (cases e) simp_all
  qed
  have written: "e = None \<Longrightarrow> files w' (DATA_FILE cfg) = Some (snapshot (Map_set (route_key m p) new rs))"
    using pr by (auto simp: persistRoutes_def dest: atomicWriteFile_ok)
  have "routes_after (register cfg now_ms req rs w) = Map_set (route_key m p) new rs
          \<and> Map_get (routes_after (register cfg now_ms req rs w)) (route_key m p) = Some new
          \<and> (fst (persistRoutes cfg now_ms (Map_set (route_key m p) new rs) w) \<noteq> None \<longrightarrow>
                outcome (register cfg now_ms req rs w)
                  = Inr (json_res 500 (JObj [(''error'', JStr ''Failed to persist route'')])))
          \<and> (fst (persistRoutes cfg now_ms (Map_set (route_key m p) new rs) w) = None \<longrightarrow>
                outcome (register cfg now_ms req rs w)
                  = Inr (json_res 200 (JObj [(''message'', JStr ''Registered''),
                                             (''method'', JStr m), (''path'', JStr p)]))
                \<and> files (world_after (register cfg now_ms req rs w)) (DATA_FILE cfg)
                    = Some (snapshot (routes_after (register cfg now_ms req rs w))))"
    using written unfolding reg pr
    by (cases e) (simp_all add: Map_get_Map_set_same)
  then show ?thesis
    unfolding Let_def m_def p_def new_def .
qed

text \<open>
  C3. Every request to \<^verbatim>\<open>POST /register\<close> is to be answered: 400 when \<^verbatim>\<open>path\<close> is missing
  or \<^verbatim>\<open>response\<close> is absent, and 500 or 200 otherwise. The handler tests \<^verbatim>\<open>path\<close> for
  truth only and \<^verbatim>\<open>method\<close> not at all. A body with the path 5 passes the test, and
  \<^verbatim>\<open>normalizePath\<close> then calls \<^verbatim>\<open>startsWith\<close> on a number; a body with the method
  \<^verbatim>\<open>null\<close> passes it, and the handler then calls \<^verbatim>\<open>toUpperCase\<close> on \<^verbatim>\<open>null\<close>. Both
  throw a TypeError out of the handler: no answer is sent, and nothing is stored.
\<close>

theorem register_throws_on_untyped_body:
  "register \<lparr>DATA_FILE = ''./data.json'', RATE_LIMIT_SECONDS = 10, RATE_LIMIT_EXEMPT = []\<rparr>
      1700000000000
      \<lparr>req_ip = Some ''10.0.0.1'', req_remoteAddress = None, req_method = ''POST'',
       req_path = ''/register'',
       req_body = JObj [(''path'', JNum 5), (''response'', JNum 1)]\<rparr>
      [] \<lparr>files = Map.empty, unreadable = {}, unwritable = {}\<rparr>
     = \<lparr>outcome = Inl TypeError, routes_after = [],
        world_after = \<lparr>files = Map.empty, unreadable = {}, unwritable = {}\<rparr>\<rparr>
   \<and> register \<lparr>DATA_FILE = ''./data.json'', RATE_LIMIT_SECONDS = 10, RATE_LIMIT_EXEMPT = []\<rparr>
      1700000000000
      \<lparr>req_ip = Some ''10.0.0.1'', req_remoteAddress = None, req_method = ''POST'',
       req_path = ''/register'',
       req_body = JObj [(''path'', JStr ''/a''), (''method'', JNull), (''response'', JNum 1)]\<rparr>
      [] \<lparr>files = Map.empty, unreadable = {}, unwritable = {}\<rparr>
     = \<lparr>outcome = Inl TypeError, routes_after = [],
        world_after = \<lparr>files = Map.empty, unreadable = {}, unwritable = {}\<rparr>\<rparr>"
  by (simp add: register_def Let_def item_field_def js_default_def startsWith_def)

theorem register_throws_on_untyped_body_witness:
  "outcome (register \<lparr>DATA_FILE = ''./data.json'', RATE_LIMIT_SECONDS = 10, RATE_LIMIT_EXEMPT = []\<rparr>
      1700000000000
      \<lparr>req_ip = Some ''10.0.0.1'', req_remoteAddress = None, req_method = ''POST'',
       req_path = ''/register'',
       req_body = JObj [(''path'', JNum 5), (''response'', JNum 1)]\<rparr>
      [] \<lparr>files = Map.empty, unreadable = {}, unwritable = {}\<rparr>)
     = Inl TypeError"
  using register_throws_on_untyped_body by simp

section \<open>Properties of the route table\<close>

lemma Map_set_keys: "fst ` set (Map_set k v rs) = insert k (fst ` set rs)"
  by (induction rs) auto

lemma Map_set_distinct: "distinct (map fst rs) \<Longrightarrow> distinct (map fst (Map_set k v rs))"
proof (induction rs)
  case Nil
  then show ?case by simp
next
  case (Cons e rs)
  then show ?case
    using Map_set_keys [of k v rs] by (auto simp: image_iff)
qed

lemma Map_set_list_all: "list_all P rs \<Longrightarrow> P (k, v) \<Longrightarrow> list_all P (Map_set k v rs)"
  by (induction rs) auto

lemma table_inv_empty: "table_inv []"
  by (simp add: table_inv_def)

lemma table_inv_Map_set:
  "table_inv rs \<Longrightarrow> http_method v = m \<Longrightarrow> path v = p \<Longrightarrow> table_inv (Map_set (route_key m p) v rs)"
  by (auto simp: table_inv_def Map_set_distinct intro: Map_set_list_all)

lemma distinct_key_once:
  "distinct (map fst rs) \<Longrightarrow> length (filter (\<lambda>e. fst e = k) rs) \<le> 1"
proof (induction rs)
  case Nil
  then show ?case by simp
next
  case (Cons e rs)
  then have "fst e = k \<Longrightarrow> filter (\<lambda>e. fst e = k) rs = []"
    by (auto simp: filter_empty_conv image_iff)
  with Cons show ?case by auto
qed

lemma entries_for_key:
  assumes "list_all (\<lambda>(k, v). k = route_key (http_method v) (path v)) rs"
  shows "entries_for m p rs =
           map snd (filter (\<lambda>e. fst e = route_key m p \<and> http_method (snd e) = m \<and> path (snd e) = p) rs)"
  using assms
  by (induction rs) (auto simp: entries_for_def)

lemma table_inv_at_most_one:
  assumes "table_inv rs"
  shows "length (entries_for m p rs) \<le> 1"
proof -
  have "length (entries_for m p rs)
          = length (filter (\<lambda>e. http_method (snd e) = m \<and> path (snd e) = p)
                      (filter (\<lambda>e. fst e = route_key m p) rs))"
    using assms by (simp add: entries_for_key table_inv_def conj_commute conj_left_commute)
  also have "\<dots> \<le> length (filter (\<lambda>e. fst e = route_key m p) rs)"
    by (rule length_filter_le)
  also have "\<dots> \<le> 1"
    using assms distinct_key_once [of rs "route_key m p"] by (simp add: table_inv_def)
  finally show ?thesis .
qed

lemma Map_get_entries_for:
  "Map_get rs (route_key m p) = Some v \<Longrightarrow> http_method v = m \<Longrightarrow> path v = p
     \<Longrightarrow> v \<in> set (entries_for m p rs)"
  by (auto simp: Map_get_def entries_for_def dest!: map_of_SomeD intro!: image_eqI [where x = "(route_key m p, v)"])

lemma table_inv_exactly_one:
  assumes "table_inv rs" and "Map_get rs (route_key m p) = Some v"
    and "http_method v = m" and "path v = p"
  shows "entries_for m p rs = [v]"
proof -
  have "v \<in> set (entries_for m p rs)"
    using assms by (intro Map_get_entries_for)
  moreover have "length (entries_for m p rs) \<le> 1"
    using assms(1) by (rule table_inv_at_most_one)
  ultimately show ?thesis
    by (cases "entries_for m p rs") auto
qed

lemma listed_for_entries:
  "listed_for m p (list_routes rs) = map list_entry (entries_for m p rs)"
  by (induction rs)
     (auto simp: listed_for_def list_routes_def entries_for_def list_entry_def item_field_def)


lemma registered_route_sel [simp]:
  "http_method (registered_route m p st b) = m" "path (registered_route m p st b) = p"
  by (simp_all add: registered_route_def)

lemma register_table_inv:
  "table_inv rs \<Longrightarrow> table_inv (routes_after (register cfg now_ms req rs w))"
  by (auto simp: register_def Let_def table_inv_Map_set split: sum.splits prod.splits option.splits)

lemma load_item_table_inv:
  "table_inv rs \<Longrightarrow> load_item rs item = Inr rs' \<Longrightarrow> table_inv rs'"
  by (auto simp: load_item_def table_inv_Map_set split: sum.splits prod.splits)

lemma load_items_table_inv:
  "table_inv rs \<Longrightarrow> table_inv (snd (load_items rs items))"
  by (induction items arbitrary: rs) (auto split: sum.splits dest: load_item_table_inv)

lemma loadRoutes_table_inv:
  "table_inv rs \<Longrightarrow> table_inv (table (loadRoutes cfg w rs))"
proof -
  assume inv: "table_inv rs"
  have "table_inv (snd (loadRoutes_try cfg w rs))"
    using inv load_items_table_inv [OF inv]
    by (auto simp: loadRoutes_try_def split: sum.splits jv.splits option.splits)
  then show ?thesis
    by (cases "loadRoutes_try cfg w rs") (auto simp: loadRoutes_def split: option.splits)
qed

lemma reachable_table_inv: "reachable rs \<Longrightarrow> table_inv rs"
  by (induction rule: reachable.induct)
     (simp_all add: table_inv_empty loadRoutes_table_inv register_table_inv)

text \<open>
  C8. In every table the server can hold, no method and path has more than one
  definition. Take such a table and two registrations that reach \<^verbatim>\<open>routes.set\<close>, each
  with a non-empty string \<^verbatim>\<open>path\<close>, a \<^verbatim>\<open>response\<close>, an ASCII \<^verbatim>\<open>method\<close> (or none) and a
  status that converts, and both with the same uppercased method and the same
  normalised path. After the first, the table holds the first definition under the key.
  After the second, it holds the second definition there, with the method, path,
  response and headers of the second body and the status converted from it (200 when
  the body has none, the number itself when it is a number other than 0); that
  definition is the only entry with that method and path, the listing of
  \<^verbatim>\<open>GET /__routes\<close> shows exactly one entry for them, and again no method and path has
  more than one entry.
\<close>

theorem register_overwrites:
  assumes "reachable rs"
    and "body_path (req_body req1) = Some bp1" and "body_method (req_body req1) = Some bm1"
    and "item_field (req_body req1) ''response'' \<noteq> JUndefined"
    and "Number_or_200 (js_default (item_field (req_body req1) ''status'') (JNum 200)) = Inr st1"
    and "body_path (req_body req2) = Some bp2" and "body_method (req_body req2) = Some bm2"
    and "item_field (req_body req2) ''response'' \<noteq> JUndefined"
    and "Number_or_200 (js_default (item_field (req_body req2) ''status'') (JNum 200)) = Inr st2"
    and "ascii bm1" and "ascii bm2"
    and "toUpperCase bm1 = toUpperCase bm2" and "slash_path bp1 = slash_path bp2"
  shows "let m = toUpperCase bm2; p = slash_path bp2;
             h1 = register cfg t1 req1 rs w;
             h2 = register cfg t2 req2 (routes_after h1) (world_after h1);
             first = \<lparr>http_method = m, path = p, status = st1,
                      response = item_field (req_body req1) ''response'',
                      headers = (if item_field (req_body req1) ''headers'' = JUndefined
                                 then JObj [] else item_field (req_body req1) ''headers'')\<rparr>;
             second = \<lparr>http_method = m, path = p, status = st2,
                       response = item_field (req_body req2) ''response'',
                       headers = (if item_field (req_body req2) ''headers'' = JUndefined
                                  then JObj [] else item_field (req_body req2) ''headers'')\<rparr>
         in (\<forall>m' p'. length (entries_for m' p' rs) \<le> 1)
          \<and> Map_get (routes_after h1) (route_key m p) = Some first
          \<and> Map_get (routes_after h2) (route_key m p) = Some second
          \<and> entries_for m p (routes_after h2) = [second]
          \<and> listed_for m p (list_routes (routes_after h2))
              = [JObj [(''path'', JStr p), (''method'', JStr m), (''status'', st2)]]
          \<and> (\<forall>m' p'. length (entries_for m' p' (routes_after h2)) \<le> 1)
          \<and> (item_field (req_body req2) ''status'' = JUndefined \<longrightarrow> st2 = JNum 200)
          \<and> (\<forall>n. item_field (req_body req2) ''status'' = JNum n \<longrightarrow>
                st2 = (if n = 0 then JNum 200 else JNum n))"
proof -
  define m p where "m = toUpperCase bm2" and "p = slash_path bp2"
  define h1 where "h1 = register cfg t1 req1 rs w"
  define h2 where "h2 = register cfg t2 req2 (routes_after h1) (world_after h1)"
  define first where "first = \<lparr>http_method = m, path = p, status = st1,
                      response = item_field (req_body req1) ''response'',
                      headers = (if item_field (req_body req1) ''headers'' = JUndefined
                                 then JObj [] else item_field (req_body req1) ''headers'')\<rparr>"
  define second where "second = \<lparr>http_method = m, path = p, status = st2,
                       response = item_field (req_body req2) ''response'',
                       headers = (if item_field (req_body req2) ''headers'' = JUndefined
                                  then JObj [] else item_field (req_body req2) ''headers'')\<rparr>"
  have mp: "toUpperCase bm1 = m" "slash_path bp1 = p"
    using assms(12,13) by (simp_all add: m_def p_def)
  have r1: "routes_after h1 = Map_set (route_key m p) first rs"
    using register_accepts [OF assms(2-5) assms(10), of cfg t1 rs w]
    unfolding Let_def mp h1_def first_def by blast
  have r2: "routes_after h2 = Map_set (route_key m p) second (routes_after h1)"
    using register_accepts [OF assms(6-9) assms(11), of cfg t2 "routes_after h1" "world_after h1"]
    unfolding Let_def h2_def second_def m_def p_def by blast
  have inv: "table_inv rs"
    using assms(1) by (rule reachable_table_inv)
  have a0: "\<forall>m' p'. length (entries_for m' p' rs) \<le> 1"
    using table_inv_at_most_one [OF inv] by blast
  have inv2: "table_inv (routes_after h2)"
    unfolding h2_def h1_def by (intro register_table_inv inv)
  have g1: "Map_get (routes_after h1) (route_key m p) = Some first"
    by (simp add: r1 Map_get_Map_set_same)
  have g2: "Map_get (routes_after h2) (route_key m p) = Some second"
    by (simp add: r2 Map_get_Map_set_same)
  have e2: "entries_for m p (routes_after h2) = [second]"
    using inv2 g2 by (rule table_inv_exactly_one) (simp_all add: second_def)
  have l2: "listed_for m p (list_routes (routes_after h2))
              = [JObj [(''path'', JStr p), (''method'', JStr m), (''status'', st2)]]"
    by (simp add: listed_for_entries e2 list_entry_def second_def)
  have a2: "\<forall>m' p'. length (entries_for m' p' (routes_after h2)) \<le> 1"
    using table_inv_at_most_one [OF inv2] by blast
  have s0: "item_field (req_body req2) ''status'' = JUndefined \<longrightarrow> st2 = JNum 200"
    using assms(9) by (auto simp: Number_or_200_def js_default_def)
  have s1: "\<forall>n. item_field (req_body req2) ''status'' = JNum n \<longrightarrow>
                st2 = (if n = 0 then JNum 200 else JNum n)"
    using assms(9) by (auto simp: Number_or_200_def js_default_def)
  show ?thesis
    using a0 g1 g2 e2 l2 a2 s0 s1
    unfolding Let_def m_def [symmetric] p_def [symmetric] h1_def [symmetric] h2_def [symmetric]
      first_def [symmetric] second_def [symmetric]
    by blast
qed

theorem register_overwrites_witness:
  "reachable [] \<and> ascii ''get'' \<and> ascii ''GET''
   \<and> listed_for ''GET'' ''/greet''
       (list_routes (routes_after
         (register \<lparr>DATA_FILE = ''./data.json'', RATE_LIMIT_SECONDS = 10, RATE_LIMIT_EXEMPT = []\<rparr> 1700000020000
          \<lparr>req_ip = Some ''10.0.0.1'', req_remoteAddress = None, req_method = ''POST'',
           req_path = ''/register'',
           req_body = JObj [(''path'', JStr ''/greet''), (''response'', JStr ''two''),
                            (''status'', JNum 201)]\<rparr>
          (routes_after (register \<lparr>DATA_FILE = ''./data.json'', RATE_LIMIT_SECONDS = 10, RATE_LIMIT_EXEMPT = []\<rparr> 1700000000000
          \<lparr>req_ip = Some ''10.0.0.1'', req_remoteAddress = None, req_method = ''POST'',
           req_path = ''/register'',
           req_body = JObj [(''path'', JStr ''greet''), (''method'', JStr ''get''),
                            (''response'', JStr ''one'')]\<rparr>
          [] \<lparr>files = Map.empty, unreadable = {}, unwritable = {}\<rparr>))
          (world_after (register \<lparr>DATA_FILE = ''./data.json'', RATE_LIMIT_SECONDS = 10, RATE_LIMIT_EXEMPT = []\<rparr> 1700000000000
          \<lparr>req_ip = Some ''10.0.0.1'', req_remoteAddress = None, req_method = ''POST'',
           req_path = ''/register'',
           req_body = JObj [(''path'', JStr ''greet''), (''method'', JStr ''get''),
                            (''response'', JStr ''one'')]\<rparr>
          [] \<lparr>files = Map.empty, unreadable = {}, unwritable = {}\<rparr>)))))
     = [JObj [(''path'', JStr ''/greet''), (''method'', JStr ''GET''), (''status'', JNum 201)]]"
  using register_overwrites
          [of "[]"
              "\<lparr>req_ip = Some ''10.0.0.1'', req_remoteAddress = None, req_method = ''POST'',
           req_path = ''/register'',
           req_body = JObj [(''path'', JStr ''greet''), (''method'', JStr ''get''),
                            (''response'', JStr ''one'')]\<rparr>" "''greet''" "''get''" "JNum 200"
              "\<lparr>req_ip = Some ''10.0.0.1'', req_remoteAddress = None, req_method = ''POST'',
           req_path = ''/register'',
           req_body = JObj [(''path'', JStr ''/greet''), (''response'', JStr ''two''),
                            (''status'', JNum 201)]\<rparr>" "''/greet''" "''GET''" "JNum 201"
              "\<lparr>DATA_FILE = ''./data.json'', RATE_LIMIT_SECONDS = 10, RATE_LIMIT_EXEMPT = []\<rparr>" 1700000000000 "\<lparr>files = Map.empty, unreadable = {}, unwritable = {}\<rparr>" 1700000020000]
  by (simp add: Let_def reachable.start ascii_def item_field_def body_path_def body_method_def
        slash_path_def startsWith_def toUpperCase_def upper_char_def Number_or_200_def
        js_default_def)

section \<open>Properties of the catch-all handler\<close>





section \<open>Properties of loading\<close>

lemma check_items_load_items:
  "check_items items = None \<Longrightarrow> fst (load_items rs items) = None"
  by (induction items arbitrary: rs) (auto simp: load_item_def split: sum.splits prod.splits)

lemma loadRoutes_logged_unchanged:
  "logged (loadRoutes cfg w rs) \<noteq> [] \<Longrightarrow> table (loadRoutes cfg w rs) = rs"
proof -
  assume lg: "logged (loadRoutes cfg w rs) \<noteq> []"
  have "fst (loadRoutes_try cfg w rs) \<noteq> None \<Longrightarrow> snd (loadRoutes_try cfg w rs) = rs"
    using check_items_load_items
    by (auto simp: loadRoutes_try_def split: sum.splits jv.splits option.splits if_splits)
  with lg show ?thesis
    by (cases "loadRoutes_try cfg w rs") (auto simp: loadRoutes_def split: option.splits)
qed

text \<open>
  C6. \<^verbatim>\<open>loadRoutes\<close> throws nothing to its caller, whatever the file system holds. At
  startup, when the table is empty: if the data file is absent the table stays empty
  and nothing is logged; if the file is there and reading it fails, or its text is not
  JSON, the error is logged and the table stays empty.
\<close>

theorem loadRoutes_never_raises:
  "thrown (loadRoutes cfg w rs) = None
   \<and> (\<not> existsSync w (DATA_FILE cfg) \<longrightarrow>
        loadRoutes cfg w [] = \<lparr>thrown = None, table = [], logged = []\<rparr>)
   \<and> (\<forall>e. existsSync w (DATA_FILE cfg) \<and> fs_readFile w (DATA_FILE cfg) = Inl e \<longrightarrow>
        loadRoutes cfg w [] = \<lparr>thrown = None, table = [], logged = [e]\<rparr>)
   \<and> (\<forall>raw e. existsSync w (DATA_FILE cfg) \<and> fs_readFile w (DATA_FILE cfg) = Inr raw
          \<and> JSON_parse raw = Inl e \<longrightarrow>
        loadRoutes cfg w [] = \<lparr>thrown = None, table = [], logged = [e]\<rparr>)"
  by (auto simp: loadRoutes_def loadRoutes_try_def split: prod.splits option.splits)

theorem loadRoutes_never_raises_witness:
  "loadRoutes \<lparr>DATA_FILE = ''./data.json'', RATE_LIMIT_SECONDS = 10, RATE_LIMIT_EXEMPT = []\<rparr>
     \<lparr>files = Map.empty, unreadable = {}, unwritable = {}\<rparr> []
     = \<lparr>thrown = None, table = [], logged = []\<rparr>
   \<and> loadRoutes \<lparr>DATA_FILE = ''./data.json'', RATE_LIMIT_SECONDS = 10, RATE_LIMIT_EXEMPT = []\<rparr>
       \<lparr>files = Map.empty(''./data.json'' \<mapsto> NotJson ''[{''), unreadable = {}, unwritable = {}\<rparr> []
     = \<lparr>thrown = None, table = [], logged = [SyntaxError]\<rparr>
   \<and> loadRoutes \<lparr>DATA_FILE = ''./data.json'', RATE_LIMIT_SECONDS = 10, RATE_LIMIT_EXEMPT = []\<rparr>
       \<lparr>files = Map.empty(''./data.json'' \<mapsto> JsonText (JArr [])), unreadable = {''./data.json''},
        unwritable = {}\<rparr> []
     = \<lparr>thrown = None, table = [], logged = [EACCES]\<rparr>"
  using loadRoutes_never_raises
          [of "\<lparr>DATA_FILE = ''./data.json'', RATE_LIMIT_SECONDS = 10, RATE_LIMIT_EXEMPT = []\<rparr>"
              "\<lparr>files = Map.empty, unreadable = {}, unwritable = {}\<rparr>" "[]"]
        loadRoutes_never_raises
          [of "\<lparr>DATA_FILE = ''./data.json'', RATE_LIMIT_SECONDS = 10, RATE_LIMIT_EXEMPT = []\<rparr>"
              "\<lparr>files = Map.empty(''./data.json'' \<mapsto> NotJson ''[{''), unreadable = {}, unwritable = {}\<rparr>"
              "[]"]
        loadRoutes_never_raises
          [of "\<lparr>DATA_FILE = ''./data.json'', RATE_LIMIT_SECONDS = 10, RATE_LIMIT_EXEMPT = []\<rparr>"
              "\<lparr>files = Map.empty(''./data.json'' \<mapsto> JsonText (JArr [])), unreadable = {''./data.json''},
                unwritable = {}\<rparr>" "[]"]
  by (simp add: existsSync_def fs_readFile_def)

section \<open>Properties of persistence\<close>

text \<open>
  Decimal rendering can be read back, so it is injective, and it has no \<^verbatim>\<open>/\<close>. Hence
  the temporary file lies in the directory of the target, two writes that read different
  clock values use different temporary files, a successful write leaves the data under
  the target path and no temporary file, and a failed one leaves the target as it was.
\<close>

lemma digits_all:
  "\<forall>d<10. digit_of (digit_char d) = Some d \<and> digit_char d \<noteq> CHR ''/''"
  by (simp add: All_less_Suc eval_nat_numeral digit_of_def digit_char_def)

lemma digit_char_digit: "d < 10 \<Longrightarrow> digit_of (digit_char d) = Some d"
  using digits_all by blast

lemma digit_char_not_slash: "d < 10 \<Longrightarrow> digit_char d \<noteq> CHR ''/''"
  using digits_all by blast

lemma parse_digits_snoc:
  "parse_digits acc (cs @ [c]) =
     (case parse_digits acc cs of
        None \<Rightarrow> None
      | Some a \<Rightarrow> (case digit_of c of None \<Rightarrow> None | Some d \<Rightarrow> Some (a * 10 + d)))"
  by (induction cs arbitrary: acc) (auto split: option.splits)


lemma parse_string_of_nat: "parse_digits 0 (string_of_nat n) = Some n"
proof (induction n rule: string_of_nat.induct)
  case (1 n)
  show ?case
  proof (cases "n < 10")
    case True
    have "string_of_nat n = [digit_char n]"
      using True by (subst string_of_nat.simps) simp
    then show ?thesis
      using True by (simp add: digit_char_digit)
  next
    case False
    then have ih: "parse_digits 0 (string_of_nat (n div 10)) = Some (n div 10)"
      using "1.IH" by blast
    have unf: "string_of_nat n = string_of_nat (n div 10) @ [digit_char (n mod 10)]"
      using False by (subst string_of_nat.simps) simp
    have "n mod 10 < 10" by simp
    then have "digit_of (digit_char (n mod 10)) = Some (n mod 10)"
      by (rule digit_char_digit)
    then show ?thesis
      unfolding unf parse_digits_snoc ih by simp
  qed
qed


lemma string_of_nat_inj: "string_of_nat a = string_of_nat b \<Longrightarrow> a = b"
proof -
  assume "string_of_nat a = string_of_nat b"
  then have "parse_digits 0 (string_of_nat a) = parse_digits 0 (string_of_nat b)"
    by (rule arg_cong)
  then show "a = b"
    unfolding parse_string_of_nat by (simp only: option.inject)
qed

lemma string_of_nat_no_slash: "CHR ''/'' \<notin> set (string_of_nat n)"
proof (induction n rule: string_of_nat.induct)
  case (1 n)
  show ?case
  proof (cases "n < 10")
    case True
    have "string_of_nat n = [digit_char n]"
      using True by (subst string_of_nat.simps) simp
    then show ?thesis
      using digit_char_not_slash [OF True] by simp
  next
    case False
    then have ih: "CHR ''/'' \<notin> set (string_of_nat (n div 10))"
      using "1.IH" by blast
    have unf: "string_of_nat n = string_of_nat (n div 10) @ [digit_char (n mod 10)]"
      using False by (subst string_of_nat.simps) simp
    have "n mod 10 < 10" by simp
    then have "digit_char (n mod 10) \<noteq> CHR ''/''"
      by (rule digit_char_not_slash)
    with ih show ?thesis
      unfolding unf by auto
  qed
qed
lemma tmp_path_inj:
  assumes "0 \<le> a" and "0 \<le> b" and "tmp_path p a = tmp_path p b"
  shows "a = b"
proof -
  from assms(3) have "string_of_nat (nat a) = string_of_nat (nat b)"
    using assms(1,2) by (simp add: tmp_path_def String_int_def)
  then have "nat a = nat b" by (rule string_of_nat_inj)
  with assms(1,2) show ?thesis by simp
qed

lemma tmp_path_dirname:
  assumes "0 \<le> now_ms"
  shows "dirname (tmp_path p now_ms) = dirname p"
proof -
  have "\<forall>c \<in> set (rev (''.'' @ string_of_nat (nat now_ms) @ ''.tmp'')). c \<noteq> CHR ''/''"
    using string_of_nat_no_slash [of "nat now_ms"] by auto
  then have "dropWhile (\<lambda>c. c \<noteq> CHR ''/'') (rev (''.'' @ string_of_nat (nat now_ms) @ ''.tmp'') @ rev p)
               = dropWhile (\<lambda>c. c \<noteq> CHR ''/'') (rev p)"
    by (intro dropWhile_append2) auto
  then show ?thesis
    using assms by (simp add: dirname_def tmp_path_def String_int_def)
qed

lemma tmp_path_not_target: "tmp_path p now_ms \<noteq> p"
  by (simp add: tmp_path_def)

lemma atomicWriteFile_steps:
  "atomicWriteFile now_ms p t w = (None, w') \<Longrightarrow>
     \<exists>w1. fs_writeFile w (tmp_path p now_ms) t = Inr w1
        \<and> fs_rename w1 (tmp_path p now_ms) p = Inr w'
        \<and> files w' p = Some t \<and> files w' (tmp_path p now_ms) = None"
  using tmp_path_not_target [of p now_ms]
  by (auto simp: atomicWriteFile_def atomicWriteFile_write_def atomicWriteFile_rename_def
        fs_writeFile_def fs_rename_def split: sum.splits if_splits option.splits)

lemma atomicWriteFile_failure_keeps_target:
  "atomicWriteFile now_ms p t w = (Some e, w') \<Longrightarrow> files w' p = files w p"
  using tmp_path_not_target [of p now_ms]
  by (auto simp: atomicWriteFile_def atomicWriteFile_write_def atomicWriteFile_rename_def
        fs_writeFile_def fs_rename_def split: sum.splits if_splits option.splits)

section \<open>Properties of persisting and reloading\<close>

text \<open>
  Loading the snapshot of a table whose routes are all stable gives that table back, in
  the same order. A registration whose body is JSON, with a non-empty ASCII method (or
  none) and headers that are absent or truthy, stores a stable route; so after such a
  registration has been persisted, a restart loads exactly the table the server had.
\<close>

lemma toUpperCase_idem: "toUpperCase (toUpperCase s) = toUpperCase s"
  by (simp add: toUpperCase_def upper_char_def)

lemma truthy_defined: "truthy x \<Longrightarrow> x \<noteq> JUndefined"
  by auto

lemma snapshot_record_fields:
  assumes "stable_route v"
  shows "item_method_path (json_clean (snapshot_record v)) = Inr (http_method v, path v)"
    and "item_field (json_clean (snapshot_record v)) ''status'' = status v"
    and "item_field (json_clean (snapshot_record v)) ''response'' = response v"
    and "item_field (json_clean (snapshot_record v)) ''headers'' = headers v"
proof -
  from assms have st: "status v \<noteq> JUndefined" and hd: "headers v \<noteq> JUndefined"
    and hd': "js_or (headers v) (JObj []) = headers v"
    and m: "js_or (JStr (http_method v)) (JStr ''GET'') = JStr (http_method v)"
    and p: "normalizePath (JStr (path v)) = Inr (path v)"
    by (auto simp: stable_route_def js_or_def startsWith_def)
  from assms have cl: "json_clean (status v) = status v" "json_clean (response v) = response v"
    "json_clean (headers v) = headers v" "toUpperCase (http_method v) = http_method v"
    by (simp_all add: stable_route_def)
  show "item_method_path (json_clean (snapshot_record v)) = Inr (http_method v, path v)"
    using st hd by (simp add: snapshot_record_def item_method_path_def hd' m p cl del: normalizePath.simps)
  show "item_field (json_clean (snapshot_record v)) ''status'' = status v"
    using st hd by (simp add: snapshot_record_def item_field_def hd' cl)
  show "item_field (json_clean (snapshot_record v)) ''response'' = response v"
    using st hd by (cases "response v = JUndefined") (simp_all add: snapshot_record_def item_field_def hd' cl)
  show "item_field (json_clean (snapshot_record v)) ''headers'' = headers v"
    using st hd by (simp add: snapshot_record_def item_field_def hd' cl)
qed

lemma load_item_snapshot_record:
  assumes "stable_route v"
  shows "load_item acc (json_clean (snapshot_record v))
           = Inr (Map_set (route_key (http_method v) (path v)) v acc)"
proof -
  from assms have "js_or (status v) (JNum 200) = status v" "js_or (headers v) (JObj []) = headers v"
    by (simp_all add: stable_route_def js_or_def)
  then have "load_item acc (json_clean (snapshot_record v))
               = Inr (Map_set (route_key (http_method v) (path v))
                        \<lparr>http_method = http_method v, path = path v, status = status v,
                         response = response v, headers = headers v\<rparr> acc)"
    by (simp add: load_item_def snapshot_record_fields [OF assms])
  then show ?thesis
    by (cases v) simp
qed

lemma Map_set_fresh: "k \<notin> fst ` set acc \<Longrightarrow> Map_set k v acc = acc @ [(k, v)]"
  by (induction acc) auto


lemma snapshot_items:
  "snapshot rs = JsonText (JArr (map (\<lambda>(k, v). json_clean (snapshot_record v)) rs))"
  by (induction rs) (auto simp: snapshot_def JSON_stringify_def snapshot_record_def)

lemma check_items_snapshot:
  "list_all (\<lambda>(k, v). stable_route v) rs
     \<Longrightarrow> check_items (map (\<lambda>(k, v). json_clean (snapshot_record v)) rs) = None"
  by (induction rs) (auto simp: snapshot_record_fields)

lemma load_items_snapshot:
  assumes "list_all (\<lambda>(k, v). stable_route v) rs"
    and "list_all (\<lambda>(k, v). k = route_key (http_method v) (path v)) rs"
    and "distinct (map fst (acc @ rs))"
  shows "load_items acc (map (\<lambda>(k, v). json_clean (snapshot_record v)) rs) = (None, acc @ rs)"
  using assms
proof (induction rs arbitrary: acc)
  case Nil
  then show ?case by simp
next
  case (Cons e rs)
  obtain k v where e: "e = (k, v)" by (cases e)
  from Cons.prems e have st: "stable_route v" and key: "k = route_key (http_method v) (path v)"
    and fresh: "k \<notin> fst ` set acc"
    by auto
  have step: "load_item acc (json_clean (snapshot_record v)) = Inr (acc @ [(k, v)])"
    using load_item_snapshot_record [OF st, of acc] Map_set_fresh [OF fresh, of v] key by simp
  have "load_items (acc @ [(k, v)]) (map (\<lambda>(k, v). json_clean (snapshot_record v)) rs)
          = (None, (acc @ [(k, v)]) @ rs)"
    using Cons.prems e by (intro Cons.IH) auto
  then show ?case
    by (simp add: e step)
qed

lemma loadRoutes_snapshot:
  assumes "table_inv rs" and "list_all (\<lambda>(k, v). stable_route v) rs"
    and "files w (DATA_FILE cfg) = Some (snapshot rs)" and "DATA_FILE cfg \<notin> unreadable w"
  shows "loadRoutes cfg w [] = \<lparr>thrown = None, table = rs, logged = []\<rparr>"
proof -
  have "load_items [] (map (\<lambda>(k, v). json_clean (snapshot_record v)) rs) = (None, [] @ rs)"
    using assms(1,2) by (intro load_items_snapshot) (simp_all add: table_inv_def)
  then show ?thesis
    using assms(3,4) check_items_snapshot [OF assms(2)]
    by (simp add: loadRoutes_def loadRoutes_try_def existsSync_def fs_readFile_def snapshot_items)
qed

lemma map_filter_id:
  assumes eq: "map f (filter P xs) = xs"
  shows "\<forall>x \<in> set xs. P x \<and> f x = x"
proof -
  have "length (map f (filter P xs)) = length xs"
    by (rule arg_cong [OF eq])
  then have len: "length (filter P xs) = length xs"
    by (simp only: length_map)
  have allP: "\<forall>x \<in> set xs. P x"
  proof (rule ccontr)
    assume "\<not> (\<forall>x \<in> set xs. P x)"
    then obtain x where "x \<in> set xs" and "\<not> P x" by blast
    then have "length (filter P xs) < length xs" by (rule length_filter_less)
    with len show False by simp
  qed
  then have "filter P xs = xs" by (simp only: filter_id_conv)
  then have "map f xs = map (\<lambda>x. x) xs"
    using eq by (simp only: list.map_ident)
  then have "\<forall>x \<in> set xs. f x = x" by (simp only: map_eq_conv)
  with allP show ?thesis by blast
qed

lemma item_field_clean:
  assumes "json_clean b = b"
  shows "json_clean (item_field b k) = item_field b k"
proof (cases b)
  case (JObj fs)
  from assms have "json_clean (JObj fs) = JObj fs"
    unfolding JObj .
  then have "map (\<lambda>(k, v). (k, json_clean v)) (filter (\<lambda>(k, v). v \<noteq> JUndefined) fs) = fs"
    by (simp only: json_clean.simps jv.inject)
  then have all: "\<forall>x \<in> set fs. (case x of (k, v) \<Rightarrow> v \<noteq> JUndefined)
                     \<and> (case x of (k, v) \<Rightarrow> (k, json_clean v)) = x"
    by (rule map_filter_id)
  show ?thesis
  proof (cases "map_of fs k")
    case None
    with JObj show ?thesis by (simp add: item_field_def)
  next
    case (Some v)
    then have "(k, v) \<in> set fs" by (rule map_of_SomeD)
    with all have "json_clean v = v" by auto
    with JObj Some show ?thesis by (simp add: item_field_def)
  qed
qed (simp_all add: item_field_def)

lemma Number_or_200_number: "Number_or_200 x = Inr st \<Longrightarrow> \<exists>n. st = JNum n \<and> n \<noteq> 0"
proof -
  assume conv: "Number_or_200 x = Inr st"
  show ?thesis
  proof (cases "Number_jv x")
    case (Inl e)
    with conv show ?thesis by (simp add: Number_or_200_def)
  next
    case (Inr r)
    show ?thesis
    proof (cases r)
      case None
      with Inr conv have "st = JNum 200" by (simp add: Number_or_200_def)
      then show ?thesis by simp
    next
      case (Some n)
      with Inr conv have "st = (if n = 0 then JNum 200 else JNum n)"
        by (simp add: Number_or_200_def)
      then show ?thesis by (cases "n = 0") simp_all
    qed
  qed
qed

lemma registered_route_stable:
  assumes "json_clean b = b" and "bm \<noteq> []"
    and "truthy (js_default (item_field b ''headers'') (JObj []))"
    and "Number_or_200 x = Inr st"
  shows "stable_route (registered_route (toUpperCase bm) (slash_path bp) st b)"
proof -
  obtain n where n: "st = JNum n" "n \<noteq> 0"
    using Number_or_200_number [OF assms(4)] by blast
  have "json_clean (js_default (item_field b ''headers'') (JObj [])) 
          = js_default (item_field b ''headers'') (JObj [])"
    using item_field_clean [OF assms(1), of "''headers''"] by (simp add: js_default_def)
  moreover have "toUpperCase bm \<noteq> []"
    using assms(2) by (simp add: toUpperCase_def)
  moreover have "startsWith (slash_path bp) ''/''"
    by (simp add: slash_path_def startsWith_def)
  ultimately show ?thesis
    using assms(3) n item_field_clean [OF assms(1), of "''response''"]
    by (simp add: stable_route_def registered_route_def toUpperCase_idem)
qed

lemma atomicWriteFile_unreadable:
  "atomicWriteFile now_ms p t w = (r, w') \<Longrightarrow> unreadable w' = unreadable w"
  by (auto simp: atomicWriteFile_def atomicWriteFile_write_def atomicWriteFile_rename_def
        fs_writeFile_def fs_rename_def split: sum.splits if_splits option.splits)

lemma reload_after_register:
  assumes "table_inv rs" and "list_all (\<lambda>(k, v). stable_route v) rs"
    and "json_clean (req_body req) = req_body req"
    and "body_path (req_body req) = Some bp"
    and "body_method (req_body req) = Some bm" and "bm \<noteq> []"
    and "item_field (req_body req) ''response'' \<noteq> JUndefined"
    and "truthy (js_default (item_field (req_body req) ''headers'') (JObj []))"
    and "outcome (register cfg now_ms req rs w) = Inr r" and "res_status r = JNum 200"
    and "DATA_FILE cfg \<notin> unreadable w" and "ascii bm"
  shows "loadRoutes cfg (world_after (register cfg now_ms req rs w)) []
           = \<lparr>thrown = None, table = routes_after (register cfg now_ms req rs w), logged = []\<rparr>"
    and "table_inv (routes_after (register cfg now_ms req rs w))"
    and "list_all (\<lambda>(k, v). stable_route v) (routes_after (register cfg now_ms req rs w))"
proof -
  define m p where "m = toUpperCase bm" and "p = slash_path bp"
  obtain st where st:
    "Number_or_200 (js_default (item_field (req_body req) ''status'') (JNum 200)) = Inr st"
    using assms(9) unfolding register_valid [OF assms(4,5,7)]
    by (cases "Number_or_200 (js_default (item_field (req_body req) ''status'') (JNum 200))")
       simp_all
  define rs' where "rs' = Map_set (route_key m p) (registered_route m p st (req_body req)) rs"
  obtain e w' where pr: "persistRoutes cfg now_ms rs' w = (e, w')"
    by (cases "persistRoutes cfg now_ms rs' w")
  have reg: "register cfg now_ms req rs w =
               (case e of
                  Some err \<Rightarrow>
                    \<lparr>outcome = Inr (json_res 500 (JObj [(''error'', JStr ''Failed to persist route'')])),
                     routes_after = rs', world_after = w'\<rparr>
                | None \<Rightarrow>
                    \<lparr>outcome = Inr (json_res 200 (JObj [(''message'', JStr ''Registered''),
                                                        (''method'', JStr m), (''path'', JStr p)])),
                     routes_after = rs', world_after = w'\<rparr>)"
    using pr unfolding register_valid [OF assms(4,5,7)] st Let_def m_def p_def rs'_def
    by (cases e) simp_all
  have ok: "e = None"
    using assms(9,10) reg by (cases e) (auto simp: json_res_def)
  have after: "routes_after (register cfg now_ms req rs w) = rs'"
    "world_after (register cfg now_ms req rs w) = w'"
    using reg ok by simp_all
  have inv': "table_inv rs'"
    unfolding rs'_def by (intro table_inv_Map_set assms(1)) simp_all
  have st': "list_all (\<lambda>(k, v). stable_route v) rs'"
    unfolding rs'_def m_def p_def
    using registered_route_stable [OF assms(3,6,8) st] assms(2)
    by (intro Map_set_list_all) simp_all
  have written: "files w' (DATA_FILE cfg) = Some (snapshot rs')"
    using pr ok by (auto simp: persistRoutes_def dest: atomicWriteFile_ok)
  have rd: "DATA_FILE cfg \<notin> unreadable w'"
    using pr assms(11) by (auto simp: persistRoutes_def dest: atomicWriteFile_unreadable)
  show "loadRoutes cfg (world_after (register cfg now_ms req rs w)) []
           = \<lparr>thrown = None, table = routes_after (register cfg now_ms req rs w), logged = []\<rparr>"
    unfolding after using inv' st' written rd by (rule loadRoutes_snapshot)
  show "table_inv (routes_after (register cfg now_ms req rs w))"
    unfolding after by (rule inv')
  show "list_all (\<lambda>(k, v). stable_route v) (routes_after (register cfg now_ms req rs w))"
    unfolding after by (rule st')
qed

section \<open>Where the code departs from its specification\<close>

text \<open>
  C2. A save writes the snapshot to a temporary file next to the target and renames it
  over the target, and the temporary name is meant to be unique per write. The name is
  built from the target path and \<^verbatim>\<open>Date.now()\<close> alone, so two writes that read the same
  millisecond use the same temporary file. Here two writes with different data overlap:
  both write the one temporary file, the first rename moves the second write's data
  into place, and the second rename finds no file and fails.
\<close>

theorem atomicWriteFile_same_millisecond:
  "JsonText (JArr [JStr ''first'']) \<noteq> JsonText (JArr [JStr ''second''])
   \<and> tmp_path ''./data.json'' 1700000000000 = ''./data.json.1700000000000.tmp''
   \<and> (\<exists>w1 w2 w3.
         atomicWriteFile_write 1700000000000 ''./data.json'' (JsonText (JArr [JStr ''first'']))
           \<lparr>files = Map.empty, unreadable = {}, unwritable = {}\<rparr> = Inr w1
       \<and> atomicWriteFile_write 1700000000000 ''./data.json'' (JsonText (JArr [JStr ''second''])) w1
           = Inr w2
       \<and> atomicWriteFile_rename 1700000000000 ''./data.json'' w2 = Inr w3
       \<and> files w3 ''./data.json'' = Some (JsonText (JArr [JStr ''second'']))
       \<and> atomicWriteFile_rename 1700000000000 ''./data.json'' w3 = Inl ENOENT)"
  by (simp add: tmp_path_def String_int_def string_of_nat.simps digit_char_def atomicWriteFile_write_def
        atomicWriteFile_rename_def fs_writeFile_def fs_rename_def)

text \<open>
  C5. Loading is meant to normalise a record exactly as registration does, with a status
  that is not a number replaced by 200. \<^verbatim>\<open>loadRoutes\<close> stores \<^verbatim>\<open>item.status || 200\<close>
  where the register handler stores \<^verbatim>\<open>Number(status) || 200\<close>: the snapshot record with
  status \<^verbatim>\<open>"abc"\<close> is loaded with that string as its status, and the same record sent
  to the register handler is stored with status 200.
\<close>

theorem loadRoutes_status_not_normalised:
  "table (loadRoutes \<lparr>DATA_FILE = ''./data.json'', RATE_LIMIT_SECONDS = 10, RATE_LIMIT_EXEMPT = []\<rparr>
       \<lparr>files = Map.empty(''./data.json'' \<mapsto>
                 JsonText (JArr [JObj [(''path'', JStr ''/a''), (''method'', JStr ''GET''),
                                       (''status'', JStr ''abc''), (''response'', JNum 1)]])),
        unreadable = {}, unwritable = {}\<rparr> [])
     = [(''GET /a'', \<lparr>http_method = ''GET'', path = ''/a'', status = JStr ''abc'', response = JNum 1,
                       headers = JObj []\<rparr>)]
   \<and> routes_after (register \<lparr>DATA_FILE = ''./data.json'', RATE_LIMIT_SECONDS = 10, RATE_LIMIT_EXEMPT = []\<rparr>
        1700000000000
        \<lparr>req_ip = Some ''10.0.0.1'', req_remoteAddress = None, req_method = ''POST'',
         req_path = ''/register'',
         req_body = JObj [(''path'', JStr ''/a''), (''method'', JStr ''GET''),
                          (''status'', JStr ''abc''), (''response'', JNum 1)]\<rparr>
        [] \<lparr>files = Map.empty, unreadable = {}, unwritable = {}\<rparr>)
     = [(''GET /a'', \<lparr>http_method = ''GET'', path = ''/a'', status = JNum 200, response = JNum 1,
                       headers = JObj []\<rparr>)]"
  by (simp add: loadRoutes_def loadRoutes_try_def existsSync_def fs_readFile_def
        item_method_path_def load_item_def item_field_def js_or_def toUpperCase_def upper_char_def
        startsWith_def route_key_def register_def Let_def js_default_def registered_route_def
        Number_or_200_def StringToNumber_def ascii_def trim_def is_space_def radix_literal_def
        unsigned_decimal_def is_digit_def digit_of_def
        split: prod.splits option.splits)

theorem loadRoutes_status_not_normalised_witness:
  "map (\<lambda>e. status (snd e))
     (table (loadRoutes \<lparr>DATA_FILE = ''./data.json'', RATE_LIMIT_SECONDS = 10, RATE_LIMIT_EXEMPT = []\<rparr>
       \<lparr>files = Map.empty(''./data.json'' \<mapsto>
                 JsonText (JArr [JObj [(''path'', JStr ''/a''), (''method'', JStr ''GET''),
                                       (''status'', JStr ''abc''), (''response'', JNum 1)]])),
        unreadable = {}, unwritable = {}\<rparr> []))
   \<noteq> map (\<lambda>e. status (snd e))
       (routes_after (register \<lparr>DATA_FILE = ''./data.json'', RATE_LIMIT_SECONDS = 10, RATE_LIMIT_EXEMPT = []\<rparr>
        1700000000000
        \<lparr>req_ip = Some ''10.0.0.1'', req_remoteAddress = None, req_method = ''POST'',
         req_path = ''/register'',
         req_body = JObj [(''path'', JStr ''/a''), (''method'', JStr ''GET''),
                          (''status'', JStr ''abc''), (''response'', JNum 1)]\<rparr>
        [] \<lparr>files = Map.empty, unreadable = {}, unwritable = {}\<rparr>))"
  using loadRoutes_status_not_normalised by simp

text \<open>
  C4. Persisting the table and loading the snapshot is meant to give the table back. The
  register handler applies its default method only to a missing \<^verbatim>\<open>method\<close>, while
  \<^verbatim>\<open>loadRoutes\<close> applies it to every falsy one: a route registered with the method
  \<^verbatim>\<open>""\<close> is acknowledged and stored under the key \<^verbatim>\<open>" /a"\<close>, and after a reload of
  the snapshot that registration wrote, the table has the key \<^verbatim>\<open>"GET /a"\<close> instead.
\<close>

theorem reload_changes_empty_method:
  "map fst (routes_after (register
        \<lparr>DATA_FILE = ''./data.json'', RATE_LIMIT_SECONDS = 10, RATE_LIMIT_EXEMPT = []\<rparr>
        1700000000000
        \<lparr>req_ip = Some ''10.0.0.1'', req_remoteAddress = None, req_method = ''POST'',
         req_path = ''/register'',
         req_body = JObj [(''path'', JStr ''/a''), (''method'', JStr ''''), (''response'', JNum 1)]\<rparr>
        [] \<lparr>files = Map.empty, unreadable = {}, unwritable = {}\<rparr>))
     = ['' /a'']
   \<and> outcome (register
        \<lparr>DATA_FILE = ''./data.json'', RATE_LIMIT_SECONDS = 10, RATE_LIMIT_EXEMPT = []\<rparr>
        1700000000000
        \<lparr>req_ip = Some ''10.0.0.1'', req_remoteAddress = None, req_method = ''POST'',
         req_path = ''/register'',
         req_body = JObj [(''path'', JStr ''/a''), (''method'', JStr ''''), (''response'', JNum 1)]\<rparr>
        [] \<lparr>files = Map.empty, unreadable = {}, unwritable = {}\<rparr>)
     = Inr (json_res 200 (JObj [(''message'', JStr ''Registered''), (''method'', JStr ''''),
                                (''path'', JStr ''/a'')]))
   \<and> map fst (table (loadRoutes
        \<lparr>DATA_FILE = ''./data.json'', RATE_LIMIT_SECONDS = 10, RATE_LIMIT_EXEMPT = []\<rparr>
        (world_after (register
          \<lparr>DATA_FILE = ''./data.json'', RATE_LIMIT_SECONDS = 10, RATE_LIMIT_EXEMPT = []\<rparr>
          1700000000000
          \<lparr>req_ip = Some ''10.0.0.1'', req_remoteAddress = None, req_method = ''POST'',
           req_path = ''/register'',
           req_body = JObj [(''path'', JStr ''/a''), (''method'', JStr ''''), (''response'', JNum 1)]\<rparr>
          [] \<lparr>files = Map.empty, unreadable = {}, unwritable = {}\<rparr>))
        []))
     = [''GET /a'']"
  by (simp add: loadRoutes_def loadRoutes_try_def existsSync_def fs_readFile_def
        item_method_path_def load_item_def item_field_def js_or_def toUpperCase_def upper_char_def
        startsWith_def route_key_def register_def Let_def js_default_def registered_route_def
        Number_or_200_def persistRoutes_def atomicWriteFile_def atomicWriteFile_write_def
        atomicWriteFile_rename_def fs_writeFile_def fs_rename_def snapshot_def snapshot_record_def
        JSON_stringify_def tmp_path_def
        split: prod.splits)

theorem reload_changes_empty_method_witness:
  "map fst (table (loadRoutes
        \<lparr>DATA_FILE = ''./data.json'', RATE_LIMIT_SECONDS = 10, RATE_LIMIT_EXEMPT = []\<rparr>
        (world_after (register
          \<lparr>DATA_FILE = ''./data.json'', RATE_LIMIT_SECONDS = 10, RATE_LIMIT_EXEMPT = []\<rparr>
          1700000000000
          \<lparr>req_ip = Some ''10.0.0.1'', req_remoteAddress = None, req_method = ''POST'',
           req_path = ''/register'',
           req_body = JObj [(''path'', JStr ''/a''), (''method'', JStr ''''), (''response'', JNum 1)]\<rparr>
          [] \<lparr>files = Map.empty, unreadable = {}, unwritable = {}\<rparr>))
        []))
   \<noteq> map fst (routes_after (register
        \<lparr>DATA_FILE = ''./data.json'', RATE_LIMIT_SECONDS = 10, RATE_LIMIT_EXEMPT = []\<rparr>
        1700000000000
        \<lparr>req_ip = Some ''10.0.0.1'', req_remoteAddress = None, req_method = ''POST'',
         req_path = ''/register'',
         req_body = JObj [(''path'', JStr ''/a''), (''method'', JStr ''''), (''response'', JNum 1)]\<rparr>
        [] \<lparr>files = Map.empty, unreadable = {}, unwritable = {}\<rparr>))"
  using reload_changes_empty_method by simp

end
